theory Spec2Isabelle
  imports Main
begin

section \<open>Levels\<close>

text \<open>
  \<^verbatim>\<open>slog.Level\<close> is a Go \<^verbatim>\<open>int\<close>. The handlers only compare levels, look them up and
  print them, so a level is modelled as an integer. The six named thresholds of
  \<^verbatim>\<open>log.go\<close>:
\<close>

type_synonym Level = int

definition LevelTrace :: Level where "LevelTrace = - 8"
definition LevelDebug :: Level where "LevelDebug = - 4"
definition LevelInfo :: Level where "LevelInfo = 0"
definition LevelWarn :: Level where "LevelWarn = 4"
definition LevelError :: Level where "LevelError = 8"
definition LevelEmergency :: Level where "LevelEmergency = 12"

subsection \<open>Printing integers and levels\<close>

text \<open>The verbs \<^verbatim>\<open>%d\<close> and \<^verbatim>\<open>%+d\<close> of \<^verbatim>\<open>fmt\<close> on integers.\<close>

definition digit_char :: "nat \<Rightarrow> char" where
  "digit_char n = ''0123456789'' ! n"

fun fmt_nat :: "nat \<Rightarrow> string" where
  "fmt_nat n = (if n < 10 then [digit_char n] else fmt_nat (n div 10) @ [digit_char (n mod 10)])"

declare fmt_nat.simps [simp del]

definition fmt_d :: "int \<Rightarrow> string" where
  "fmt_d v = (if v < 0 then ''-'' @ fmt_nat (nat (- v)) else fmt_nat (nat v))"

definition fmt_plus_d :: "int \<Rightarrow> string" where
  "fmt_plus_d v = (if v < 0 then ''-'' @ fmt_nat (nat (- v)) else ''+'' @ fmt_nat (nat v))"

definition fmt_t :: "bool \<Rightarrow> string" where
  "fmt_t b = (if b then ''true'' else ''false'')"

text \<open>
  \<^verbatim>\<open>Level.String\<close> of \<^verbatim>\<open>log/slog\<close>, which both \<^verbatim>\<open>getLevelName\<close> and
  \<^verbatim>\<open>getLevelText\<close> fall back to: the nearest standard name below the level and the
  signed offset from it.
\<close>

definition Level_str :: "string \<Rightarrow> Level \<Rightarrow> string" where
  "Level_str base val = (if val = 0 then base else base @ fmt_plus_d val)"

definition Level_String :: "Level \<Rightarrow> string" where
  "Level_String l =
     (if l < LevelInfo then Level_str ''DEBUG'' (l - LevelDebug)
      else if l < LevelWarn then Level_str ''INFO'' (l - LevelInfo)
      else if l < LevelError then Level_str ''WARN'' (l - LevelWarn)
      else Level_str ''ERROR'' (l - LevelError))"

section \<open>Attributes, records and documents\<close>

text \<open>
  A \<^verbatim>\<open>time.Time\<close> is a wall-clock instant with a zone; it is only ever formatted, and
  formatting is a function of the environment below. A \<^verbatim>\<open>float64\<close> is kept as its bit
  pattern, and is only ever stored or formatted.
\<close>

datatype Time = Instant (unixNano: int) (zoneOffset: int)

datatype Float64 = Float64 (bits: nat)

text \<open>
  The payload of a value of kind \<^verbatim>\<open>KindAny\<close>: nil, a \<^verbatim>\<open>slog.Level\<close> (what the JSON
  handler passes to \<^verbatim>\<open>ReplaceAttr\<close> under the level key), or some other Go value.
\<close>

datatype AnyV = AnyNil | AnyLevel Level | AnyOther nat

datatype Value =
    KindAny AnyV
  | KindBool bool
  | KindDuration int
  | KindFloat64 Float64
  | KindInt64 int
  | KindString string
  | KindTime Time
  | KindUint64 nat
  | KindGroup "Attr list"
  | KindLogValuer nat
and Attr = Attr (Key: string) (Value: Value)

text \<open>\<^verbatim>\<open>a.Equal(slog.Attr{})\<close>: the empty key with the zero value (kind Any, nil).\<close>

definition Attr_isZero :: "Attr \<Rightarrow> bool" where
  "Attr_isZero a = (Key a = [] \<and> Value a = KindAny AnyNil)"

datatype Context = Background | WithValue Context string string

record Record =
  Time :: Time
  Message :: string
  Level :: Level
  PC :: nat
  Attrs :: "Attr list"

text \<open>
  \<^verbatim>\<open>slog.HandlerOptions\<close>: \<open>Level\<close> is the level its \<^verbatim>\<open>Leveler\<close> reports, or \<open>None\<close> for
  nil; \<open>ReplaceAttr\<close> is \<open>None\<close> for nil.
\<close>

record HandlerOptions =
  AddSource :: bool
  Level :: "Level option"
  ReplaceAttr :: "(string list \<Rightarrow> Attr \<Rightarrow> Attr) option"

text \<open>
  A Go slice of attributes is a window on a backing array: the array's address, a length
  and a capacity. The nil slice and the empty literal have length and capacity 0.
\<close>

record slice =
  addr :: nat
  len :: nat
  cap :: nat

definition nil_slice :: slice where
  "nil_slice = \<lparr>addr = 0, len = 0, cap = 0\<rparr>"

section \<open>Errors, documents and the environment\<close>

text \<open>
  A Go \<^verbatim>\<open>error\<close>: a plain one, or one wrapped by \<^verbatim>\<open>fmt.Errorf\<close> with \<^verbatim>\<open>%w\<close>.
  A call that returns \<^verbatim>\<open>error\<close> returns \<open>None\<close> for nil.
\<close>

datatype error = Error string | Errorf string error

text \<open>
  The values of type \<^verbatim>\<open>interface{}\<close> that the remote sink stores in its document:
  what \<^verbatim>\<open>Value.Any\<close> returns for each kind, the \<^verbatim>\<open>int\<close> of a source line, and a nested
  \<^verbatim>\<open>map[string]interface{}\<close>. A Go map is a partial function on its keys.
\<close>

datatype iface =
    IString string
  | IInt int
  | IInt64 int
  | IUint64 nat
  | IFloat64 Float64
  | IBool bool
  | IDuration int
  | ITime Time
  | IAny AnyV
  | ILogValuer nat
  | IAttrs "Attr list"
  | IMap "string \<Rightarrow> iface option"

fun Value_Any :: "Value \<Rightarrow> iface" where
  "Value_Any (KindAny x) = IAny x"
| "Value_Any (KindBool b) = IBool b"
| "Value_Any (KindDuration d) = IDuration d"
| "Value_Any (KindFloat64 f) = IFloat64 f"
| "Value_Any (KindInt64 i) = IInt64 i"
| "Value_Any (KindString s) = IString s"
| "Value_Any (KindTime t) = ITime t"
| "Value_Any (KindUint64 u) = IUint64 u"
| "Value_Any (KindGroup g) = IAttrs g"
| "Value_Any (KindLogValuer v) = ILogValuer v"

record Frame =
  File :: string
  Line :: int
  Function :: string

text \<open>
  What the handlers take from the Go runtime and standard library, as parameters: the
  host and program names (package variables set at start), \<^verbatim>\<open>Time.Format\<close>,
  \<^verbatim>\<open>json.Marshal\<close> on a document (the JSON text, or the encoder's error),
  \<^verbatim>\<open>runtime.CallersFrames\<close> on one program counter, the \<^verbatim>\<open>fmt\<close> verbs \<^verbatim>\<open>%q\<close>, \<^verbatim>\<open>%g\<close>
  and \<^verbatim>\<open>%v\<close>, and the capacity \<^verbatim>\<open>append\<close> asks for when it has to grow a slice (from the
  old capacity and the length needed).
\<close>

record Env =
  hostname :: string
  appName :: string
  time_Format :: "Time \<Rightarrow> string \<Rightarrow> string"
  json_Marshal :: "(string \<Rightarrow> iface option) \<Rightarrow> error + string"
  callersFrame :: "nat \<Rightarrow> Frame"
  fmt_q :: "string \<Rightarrow> string"
  fmt_g :: "Float64 \<Rightarrow> string"
  fmt_v :: "iface \<Rightarrow> string"
  growCap :: "nat \<Rightarrow> nat \<Rightarrow> nat"

section \<open>Handlers and the world they act on\<close>

text \<open>
  \<^verbatim>\<open>consoleHandler\<close> of \<^verbatim>\<open>log.go\<close>. The output stream is named by the number of an
  \<^verbatim>\<open>io.Writer\<close>; the mutex has no counterpart in a sequential model.
\<close>

record consoleHandler =
  opts :: HandlerOptions
  out :: nat
  attrs :: slice
  group :: string

text \<open>
  \<^verbatim>\<open>VictoriaLogsHandler\<close>: the remote sink. The HTTP client is a pointer and the
  channel is a reference, both kept as numbers.
\<close>

record VictoriaLogsHandler =
  endpoint :: string
  client :: nat
  attrs :: slice
  group :: string
  logChan :: nat

text \<open>The file sink is the standard library's JSON handler on the opened log file.\<close>

datatype JSONHandler = NewJSONHandler nat HandlerOptions

datatype AnyHandler =
    HConsole consoleHandler
  | HJSON JSONHandler
  | HVictoria VictoriaLogsHandler

text \<open>
  The mutable state the handlers share: the backing arrays of attribute slices, the
  buffered channels (contents oldest first, and capacity), the worker goroutines started
  so far (each runs \<^verbatim>\<open>worker\<close> of the handler it was started on), the package variable
  \<^verbatim>\<open>victoriaLogsHandler\<close>, and the bytes each writer has received and the error, if
  any, that its \<^verbatim>\<open>Write\<close> returns.
\<close>

record World =
  arrays :: "nat \<Rightarrow> Attr list"
  nextArray :: nat
  chanBuf :: "nat \<Rightarrow> string list"
  chanCap :: "nat \<Rightarrow> nat"
  nextChan :: nat
  workers :: "VictoriaLogsHandler list"
  victoriaLogsHandler :: "VictoriaLogsHandler option"
  written :: "nat \<Rightarrow> string"
  writeErr :: "nat \<Rightarrow> error option"

subsection \<open>Slices\<close>

definition zeroAttr :: Attr where
  "zeroAttr = Attr [] (KindAny AnyNil)"

definition slice_view :: "World \<Rightarrow> slice \<Rightarrow> Attr list" where
  "slice_view w s = take (len s) (arrays w (addr s))"

text \<open>\<^verbatim>\<open>make([]slog.Attr, 0, n)\<close>: a fresh array of \<open>n\<close> zero attributes.\<close>

definition slice_make :: "nat \<Rightarrow> World \<Rightarrow> slice \<times> World" where
  "slice_make n w =
     (\<lparr>addr = nextArray w, len = 0, cap = n\<rparr>,
      w\<lparr>arrays := (arrays w)(nextArray w := replicate n zeroAttr),
        nextArray := Suc (nextArray w)\<rparr>)"

definition list_write :: "'a list \<Rightarrow> nat \<Rightarrow> 'a list \<Rightarrow> 'a list" where
  "list_write arr i xs = take i arr @ xs @ drop (i + length xs) arr"

text \<open>
  \<^verbatim>\<open>append(s, xs...)\<close>: when the new length fits the capacity the elements are written
  into the backing array of \<open>s\<close>, after its length; otherwise a fresh array is allocated
  and the elements of \<open>s\<close> are copied into it.
\<close>

definition slice_append :: "Env \<Rightarrow> slice \<Rightarrow> Attr list \<Rightarrow> World \<Rightarrow> slice \<times> World" where
  "slice_append env s xs w =
     (let n = len s + length xs in
      if n \<le> cap s then
        (s\<lparr>len := n\<rparr>,
         w\<lparr>arrays := (arrays w)(addr s := list_write (arrays w (addr s)) (len s) xs)\<rparr>)
      else
        (let c = max n (growCap env (cap s) n); a = nextArray w in
         (\<lparr>addr = a, len = n, cap = c\<rparr>,
          w\<lparr>arrays := (arrays w)(a := slice_view w s @ xs @ replicate (c - n) zeroAttr),
            nextArray := Suc a\<rparr>)))"

text \<open>
  A slice is valid in a world when its window lies inside an allocated array. A slice of
  capacity 0 has no array.
\<close>

definition slice_valid :: "World \<Rightarrow> slice \<Rightarrow> bool" where
  "slice_valid w s =
     (len s \<le> cap s \<and> (cap s = 0 \<or> (addr s < nextArray w \<and> cap s \<le> length (arrays w (addr s)))))"

subsection \<open>Channels and writers\<close>

text \<open>\<^verbatim>\<open>make(chan []byte, n)\<close>.\<close>

definition chan_make :: "nat \<Rightarrow> World \<Rightarrow> nat \<times> World" where
  "chan_make n w =
     (nextChan w,
      w\<lparr>chanBuf := (chanBuf w)(nextChan w := []),
        chanCap := (chanCap w)(nextChan w := n),
        nextChan := Suc (nextChan w)\<rparr>)"

text \<open>
  \<^verbatim>\<open>select { case ch <- data: default: }\<close>: the send is taken when the buffer has room
  and the default branch otherwise; neither waits. (A receiver waits on a buffered channel
  only while the buffer is empty, so the send can proceed exactly when the buffer is not
  full.)
\<close>

definition chan_trySend :: "nat \<Rightarrow> string \<Rightarrow> World \<Rightarrow> World" where
  "chan_trySend ch data w =
     (if length (chanBuf w ch) < chanCap w ch
      then w\<lparr>chanBuf := (chanBuf w)(ch := chanBuf w ch @ [data])\<rparr>
      else w)"

text \<open>
  \<^verbatim>\<open>out.Write(bytes)\<close>: a writer either takes the bytes or returns its error.
\<close>

definition Writer_Write :: "nat \<Rightarrow> string \<Rightarrow> World \<Rightarrow> error option \<times> World" where
  "Writer_Write wr bs w =
     (case writeErr w wr of
        Some err \<Rightarrow> (Some err, w)
      | None \<Rightarrow> (None, w\<lparr>written := (written w)(wr := written w wr @ bs)\<rparr>))"

section \<open>The console sink\<close>

definition colorReset :: string where "colorReset = CHR 0x1B # ''[0m''"
definition colorRed :: string where "colorRed = CHR 0x1B # ''[31m''"
definition colorGreen :: string where "colorGreen = CHR 0x1B # ''[32m''"
definition colorYellow :: string where "colorYellow = CHR 0x1B # ''[33m''"
definition colorBlue :: string where "colorBlue = CHR 0x1B # ''[34m''"
definition colorPurple :: string where "colorPurple = CHR 0x1B # ''[35m''"
definition colorCyan :: string where "colorCyan = CHR 0x1B # ''[36m''"
definition colorGray :: string where "colorGray = CHR 0x1B # ''[90m''"
definition colorWhite :: string where "colorWhite = CHR 0x1B # ''[97m''"
definition colorRedBg :: string where "colorRedBg = CHR 0x1B # ''[41m''"

definition newConsoleHandler :: "nat \<Rightarrow> HandlerOptions option \<Rightarrow> consoleHandler" where
  "newConsoleHandler w opts' =
     (let opts'' = (case opts' of
                      None \<Rightarrow> \<lparr>AddSource = False, HandlerOptions.Level = None, ReplaceAttr = None\<rparr>
                    | Some x \<Rightarrow> x)
      in \<lparr>opts = opts'', out = w, consoleHandler.attrs = nil_slice, consoleHandler.group = []\<rparr>)"

definition consoleHandler_Enabled :: "consoleHandler \<Rightarrow> Context \<Rightarrow> Level \<Rightarrow> bool" where
  "consoleHandler_Enabled h ctx level =
     (let minLevel = (case HandlerOptions.Level (opts h) of
                        None \<Rightarrow> LevelInfo
                      | Some l \<Rightarrow> l)
      in level \<ge> minLevel)"

definition getLevelColor :: "Level \<Rightarrow> string" where
  "getLevelColor level =
     (if level < LevelDebug then colorGray
      else if level < LevelInfo then colorBlue
      else if level < LevelWarn then colorGreen
      else if level < LevelError then colorYellow
      else if level < LevelEmergency then colorRed
      else colorRedBg @ colorWhite)"

definition getLevelText :: "Level \<Rightarrow> string" where
  "getLevelText level =
     (if level = LevelTrace then ''TRAC''
      else if level = LevelDebug then ''DBG ''
      else if level = LevelInfo then ''INFO''
      else if level = LevelWarn then ''WARN''
      else if level = LevelError then ''ERR ''
      else if level = LevelEmergency then ''EMER''
      else Level_String level)"

text \<open>
  \<^verbatim>\<open>appendAttr\<close> writes one attribute to the buffer and returns the buffer; the loop over
  the members of a group is \<open>appendAttr_group\<close>, with the loop's \<^verbatim>\<open>first\<close> flag.
\<close>

fun appendAttr :: "Env \<Rightarrow> string \<Rightarrow> Attr \<Rightarrow> string \<Rightarrow> string"
and appendAttr_group :: "Env \<Rightarrow> string \<Rightarrow> Attr list \<Rightarrow> bool \<Rightarrow> string \<Rightarrow> string"
where
  "appendAttr env buf (Attr k v) group' =
     (if Attr_isZero (Attr k v) then buf
      else
        (let key = (if group' \<noteq> [] then group' @ ''.'' @ k else k);
             buf1 = buf @ colorPurple @ key @ colorReset @ ''=''
         in case v of
              KindString s \<Rightarrow> buf1 @ colorGreen @ fmt_q env s @ colorReset
            | KindInt64 i \<Rightarrow> buf1 @ colorCyan @ fmt_d i @ colorReset
            | KindBool b \<Rightarrow> buf1 @ colorYellow @ fmt_t b @ colorReset
            | KindFloat64 f \<Rightarrow> buf1 @ colorCyan @ fmt_g env f @ colorReset
            | KindGroup g \<Rightarrow> appendAttr_group env (buf1 @ ''{'') g True key @ ''}''
            | _ \<Rightarrow> buf1 @ fmt_v env (Value_Any v) @ colorReset))"
| "appendAttr_group env buf [] first key = buf"
| "appendAttr_group env buf (attr # rest) first key =
     appendAttr_group env
       (appendAttr env (if first then buf else buf @ '' '') attr key) rest False key"

text \<open>\<^verbatim>\<open>strings.LastIndex(s, "/")\<close>, for a separator of one byte: \<open>- 1\<close> when absent.\<close>

fun LastIndex :: "string \<Rightarrow> char \<Rightarrow> int" where
  "LastIndex [] c = - 1"
| "LastIndex (x # xs) c =
     (let r = LastIndex xs c in if r \<ge> 0 then r + 1 else if x = c then 0 else - 1)"

definition shortenFile :: "string \<Rightarrow> string" where
  "shortenFile file =
     (let idx = LastIndex file (CHR ''/'') in
      if idx \<ge> 0 then
        (let idx2 = LastIndex (take (nat idx) file) (CHR ''/'') in
         if idx2 \<ge> 0 then drop (nat (idx2 + 1)) file else file)
      else file)"

text \<open>
  \<^verbatim>\<open>Handle\<close> fills a buffer with the line (\<open>consoleHandler_line\<close>) and writes it to the
  output stream in one call.
\<close>

definition consoleHandler_line :: "Env \<Rightarrow> consoleHandler \<Rightarrow> Record \<Rightarrow> World \<Rightarrow> string" where
  "consoleHandler_line env h r w =
     (let buf = colorGray @ time_Format env (Time r) ''15:04:05.000'' @ colorReset @ '' '';
          levelColor = getLevelColor (Record.Level r);
          levelText = getLevelText (Record.Level r);
          buf = buf @ levelColor @ levelText @ replicate (4 - length levelText) (CHR '' '')
                  @ colorReset @ '' '';
          buf = buf @ Message r;
          buf = foldl (\<lambda>b a. appendAttr env (b @ '' '') a (consoleHandler.group h)) buf (Attrs r);
          buf = foldl (\<lambda>b a. appendAttr env (b @ '' '') a (consoleHandler.group h)) buf
                  (slice_view w (consoleHandler.attrs h));
          buf = (if AddSource (opts h) \<and> PC r \<noteq> 0 then
                   (let f = callersFrame env (PC r);
                        file = shortenFile (File f)
                    in buf @ '' '' @ colorCyan @ (file @ '':'' @ fmt_d (Line f)) @ colorReset)
                 else buf);
          buf = buf @ [CHR 0x0A]
      in buf)"

definition consoleHandler_Handle ::
  "Env \<Rightarrow> consoleHandler \<Rightarrow> Context \<Rightarrow> Record \<Rightarrow> World \<Rightarrow> error option \<times> World" where
  "consoleHandler_Handle env h ctx r w = Writer_Write (out h) (consoleHandler_line env h r w) w"

definition consoleHandler_WithAttrs ::
  "Env \<Rightarrow> consoleHandler \<Rightarrow> Attr list \<Rightarrow> World \<Rightarrow> consoleHandler \<times> World" where
  "consoleHandler_WithAttrs env h attrs' w =
     (let (dst, w1) = slice_make (len (consoleHandler.attrs h) + length attrs') w;
          (tmp, w2) = slice_append env (consoleHandler.attrs h) attrs' w1;
          (res, w3) = slice_append env dst (slice_view w2 tmp) w2
      in (\<lparr>opts = opts h, out = out h, consoleHandler.attrs = res,
           consoleHandler.group = consoleHandler.group h\<rparr>, w3))"

definition consoleHandler_WithGroup ::
  "Env \<Rightarrow> consoleHandler \<Rightarrow> string \<Rightarrow> World \<Rightarrow> consoleHandler \<times> World" where
  "consoleHandler_WithGroup env h name w =
     (let newGroup = (if consoleHandler.group h \<noteq> [] then consoleHandler.group h @ ''.'' @ name
                      else name);
          (dst, w1) = slice_make (len (consoleHandler.attrs h)) w;
          (res, w2) = slice_append env dst (slice_view w1 (consoleHandler.attrs h)) w1
      in (\<lparr>opts = opts h, out = out h, consoleHandler.attrs = res,
           consoleHandler.group = newGroup\<rparr>, w2))"

section \<open>The remote sink\<close>

definition httpClient :: nat where
  "httpClient = 1"

definition createLineBytes :: string where
  \<open>createLineBytes = ''{"create":{}}'' @ [CHR 0x0A]\<close>

definition levelNames :: "Level \<Rightarrow> string option" where
  "levelNames =
     [LevelTrace \<mapsto> ''TRACE'',
      LevelDebug \<mapsto> ''DEBUG'',
      LevelInfo \<mapsto> ''INFO'',
      LevelWarn \<mapsto> ''WARN'',
      LevelError \<mapsto> ''ERROR'',
      LevelEmergency \<mapsto> ''EMERGENCY'']"

definition getLevelName :: "Level \<Rightarrow> string" where
  "getLevelName level =
     (case levelNames level of
        Some name \<Rightarrow> name
      | None \<Rightarrow> Level_String level)"

text \<open>
  \<^verbatim>\<open>NewVictoriaLogsHandler\<close>: the default endpoint for the empty string, a channel of
  2000 entries, the worker goroutine started on the new handler, and the package variable
  set to it.
\<close>

definition NewVictoriaLogsHandler :: "string \<Rightarrow> World \<Rightarrow> VictoriaLogsHandler \<times> World" where
  "NewVictoriaLogsHandler endpoint' w =
     (let endpoint'' = (if endpoint' = [] then ''http://oci-aca-001:9428/insert/elasticsearch/_bulk''
                        else endpoint');
          (ch, w1) = chan_make 2000 w;
          h = \<lparr>endpoint = endpoint'', client = httpClient, VictoriaLogsHandler.attrs = nil_slice,
               VictoriaLogsHandler.group = [], logChan = ch\<rparr>;
          w2 = w1\<lparr>workers := workers w1 @ [h]\<rparr>;
          w3 = w2\<lparr>victoriaLogsHandler := Some h\<rparr>
      in (h, w3))"

definition VictoriaLogsHandler_Enabled :: "VictoriaLogsHandler \<Rightarrow> Context \<Rightarrow> Level \<Rightarrow> bool" where
  "VictoriaLogsHandler_Enabled h ctx level = True"

text \<open>
  \<^verbatim>\<open>addAttrToMap\<close> stores one attribute in the map and returns the map; the loop over the
  members of a group, which fills a fresh map with no prefix, is \<open>addAttrToMap_group\<close>.
\<close>

fun addAttrToMap :: "(string \<Rightarrow> iface option) \<Rightarrow> Attr \<Rightarrow> string \<Rightarrow> (string \<Rightarrow> iface option)"
and addAttrToMap_group :: "(string \<Rightarrow> iface option) \<Rightarrow> Attr list \<Rightarrow> (string \<Rightarrow> iface option)"
where
  "addAttrToMap m (Attr k v) group' =
     (if Attr_isZero (Attr k v) then m
      else
        (let key = (if group' \<noteq> [] then group' @ ''.'' @ k else k)
         in case v of
              KindGroup g \<Rightarrow> m(key \<mapsto> IMap (addAttrToMap_group Map.empty g))
            | _ \<Rightarrow> m(key \<mapsto> Value_Any v)))"
| "addAttrToMap_group groupMap [] = groupMap"
| "addAttrToMap_group groupMap (attr # rest) =
     addAttrToMap_group (addAttrToMap groupMap attr []) rest"

text \<open>
  \<^verbatim>\<open>Handle\<close> builds the document in two steps: the standard fields, with the source
  location when the record has a program counter (\<open>VictoriaLogsHandler_fields\<close>), and then
  the handler's own attributes followed by the record's (\<open>VictoriaLogsHandler_entry\<close>).
\<close>

definition VictoriaLogsHandler_fields :: "Env \<Rightarrow> Record \<Rightarrow> (string \<Rightarrow> iface option)" where
  "VictoriaLogsHandler_fields env r =
     (let entry = Map.empty;
          entry = entry(''_msg'' \<mapsto> IString (Message r));
          entry = entry(''_time'' \<mapsto>
                    IString (time_Format env (Time r) ''2006-01-02T15:04:05.999999999Z07:00''));
          entry = entry(''level'' \<mapsto> IString (getLevelName (Record.Level r)));
          entry = entry(''host'' \<mapsto> IString (hostname env));
          entry = entry(''app'' \<mapsto> IString (appName env));
          entry = (if PC r \<noteq> 0 then
                     (let f = callersFrame env (PC r);
                          entry = entry(''source.file'' \<mapsto> IString (File f));
                          entry = entry(''source.line'' \<mapsto> IInt (Line f));
                          entry = entry(''source.function'' \<mapsto> IString (Function f))
                      in entry)
                   else entry)
      in entry)"

definition VictoriaLogsHandler_entry ::
  "Env \<Rightarrow> VictoriaLogsHandler \<Rightarrow> Record \<Rightarrow> World \<Rightarrow> (string \<Rightarrow> iface option)" where
  "VictoriaLogsHandler_entry env h r w =
     (let entry = VictoriaLogsHandler_fields env r;
          entry = foldl (\<lambda>m a. addAttrToMap m a (VictoriaLogsHandler.group h)) entry
                    (slice_view w (VictoriaLogsHandler.attrs h));
          entry = foldl (\<lambda>m a. addAttrToMap m a (VictoriaLogsHandler.group h)) entry (Attrs r)
      in entry)"

text \<open>
  \<^verbatim>\<open>Encoder.Encode\<close> writes the JSON text of the value and a newline, or returns the
  error. The pooled buffer is reset before use and copied before it is returned to the
  pool, so the payload is the create line followed by what the encoder wrote.
\<close>

definition json_Encode :: "Env \<Rightarrow> (string \<Rightarrow> iface option) \<Rightarrow> error + string" where
  "json_Encode env entry =
     (case json_Marshal env entry of
        Inl err \<Rightarrow> Inl err
      | Inr doc \<Rightarrow> Inr (doc @ [CHR 0x0A]))"

definition VictoriaLogsHandler_Handle ::
  "Env \<Rightarrow> VictoriaLogsHandler \<Rightarrow> Context \<Rightarrow> Record \<Rightarrow> World \<Rightarrow> error option \<times> World" where
  "VictoriaLogsHandler_Handle env h ctx r w =
     (let entry = VictoriaLogsHandler_entry env h r w
      in case json_Encode env entry of
           Inl err \<Rightarrow> (Some (Errorf ''failed to encode log entry: '' err), w)
         | Inr written' \<Rightarrow>
             (let data = createLineBytes @ written'
              in (None, chan_trySend (logChan h) data w)))"

definition VictoriaLogsHandler_WithAttrs ::
  "Env \<Rightarrow> VictoriaLogsHandler \<Rightarrow> Attr list \<Rightarrow> World \<Rightarrow> VictoriaLogsHandler \<times> World" where
  "VictoriaLogsHandler_WithAttrs env h attrs' w =
     (let (tmp, w1) = slice_append env nil_slice (slice_view w (VictoriaLogsHandler.attrs h)) w;
          (res, w2) = slice_append env tmp attrs' w1
      in (\<lparr>endpoint = endpoint h, client = client h, VictoriaLogsHandler.attrs = res,
           VictoriaLogsHandler.group = VictoriaLogsHandler.group h, logChan = logChan h\<rparr>, w2))"

definition VictoriaLogsHandler_WithGroup ::
  "Env \<Rightarrow> VictoriaLogsHandler \<Rightarrow> string \<Rightarrow> World \<Rightarrow> VictoriaLogsHandler \<times> World" where
  "VictoriaLogsHandler_WithGroup env h name w =
     (let newGroup = (if VictoriaLogsHandler.group h \<noteq> []
                      then VictoriaLogsHandler.group h @ ''.'' @ name
                      else name);
          (res, w1) = slice_append env nil_slice (slice_view w (VictoriaLogsHandler.attrs h)) w
      in (\<lparr>endpoint = endpoint h, client = client h, VictoriaLogsHandler.attrs = res,
           VictoriaLogsHandler.group = newGroup, logChan = logChan h\<rparr>, w1))"

section \<open>The dispatcher\<close>

text \<open>
  \<^verbatim>\<open>multiHandler\<close> holds a slice of \<^verbatim>\<open>slog.Handler\<close> values and calls two methods of the
  interface on each: a member is the pair of its \<^verbatim>\<open>Enabled\<close> and \<^verbatim>\<open>Handle\<close> methods, the
  latter acting on the world.
\<close>

record 'w Handler =
  Enabled :: "Context \<Rightarrow> Level \<Rightarrow> bool"
  Handle :: "Context \<Rightarrow> Record \<Rightarrow> 'w \<Rightarrow> error option \<times> 'w"

fun multiHandler_Enabled :: "'w Handler list \<Rightarrow> Context \<Rightarrow> Level \<Rightarrow> bool" where
  "multiHandler_Enabled [] ctx level = False"
| "multiHandler_Enabled (handler # rest) ctx level =
     (if Enabled handler ctx level then True else multiHandler_Enabled rest ctx level)"

text \<open>The loop of \<^verbatim>\<open>multiHandler.Handle\<close>, with the errors collected so far.\<close>

fun multiHandler_Handle_loop ::
  "'w Handler list \<Rightarrow> Context \<Rightarrow> Record \<Rightarrow> error list \<Rightarrow> 'w \<Rightarrow> error list \<times> 'w" where
  "multiHandler_Handle_loop [] ctx r errs w = (errs, w)"
| "multiHandler_Handle_loop (handler # rest) ctx r errs w =
     (if Enabled handler ctx (Record.Level r) then
        (case Handle handler ctx r w of
           (Some err, w') \<Rightarrow> multiHandler_Handle_loop rest ctx r (errs @ [err]) w'
         | (None, w') \<Rightarrow> multiHandler_Handle_loop rest ctx r errs w')
      else multiHandler_Handle_loop rest ctx r errs w)"

definition multiHandler_Handle ::
  "'w Handler list \<Rightarrow> Context \<Rightarrow> Record \<Rightarrow> 'w \<Rightarrow> error option \<times> 'w" where
  "multiHandler_Handle handlers ctx r w =
     (let (errs, w') = multiHandler_Handle_loop handlers ctx r [] w
      in if length errs > 0 then (Some (errs ! 0), w') else (None, w'))"

text \<open>The sinks of this package as members of a dispatcher.\<close>

definition consoleHandler_iface :: "Env \<Rightarrow> consoleHandler \<Rightarrow> World Handler" where
  "consoleHandler_iface env h =
     \<lparr>Enabled = consoleHandler_Enabled h, Handle = consoleHandler_Handle env h\<rparr>"

definition VictoriaLogsHandler_iface :: "Env \<Rightarrow> VictoriaLogsHandler \<Rightarrow> World Handler" where
  "VictoriaLogsHandler_iface env h =
     \<lparr>Enabled = VictoriaLogsHandler_Enabled h, Handle = VictoriaLogsHandler_Handle env h\<rparr>"

section \<open>Construction at start\<close>

definition LevelKey :: string where
  "LevelKey = ''level''"

text \<open>
  The \<^verbatim>\<open>ReplaceAttr\<close> function that \<^verbatim>\<open>init\<close> gives the file sink. An attribute under the
  level key whose value is not a \<^verbatim>\<open>slog.Level\<close> is returned as it is.
\<close>

definition replaceAttr :: "string list \<Rightarrow> Attr \<Rightarrow> Attr" where
  "replaceAttr groups a =
     (if Key a = LevelKey then
        (case Value a of
           KindAny (AnyLevel level) \<Rightarrow>
             (if level = LevelTrace then Attr LevelKey (KindString ''TRACE'')
              else if level = LevelEmergency then Attr LevelKey (KindString ''EMER'')
              else a)
         | _ \<Rightarrow> a)
      else a)"

text \<open>
  How the standard library's JSON handler names the level of a record: with no
  \<^verbatim>\<open>ReplaceAttr\<close> it writes \<^verbatim>\<open>Level.String\<close>; with one, it passes the attribute
  \<^verbatim>\<open>Any(LevelKey, level)\<close> through it and writes the value that comes back, a string as it
  is and a level by \<^verbatim>\<open>Level.String\<close>. Other replacements are not named here.
\<close>

definition JSONHandler_levelName :: "HandlerOptions \<Rightarrow> Level \<Rightarrow> string option" where
  "JSONHandler_levelName o' level =
     (case ReplaceAttr o' of
        None \<Rightarrow> Some (Level_String level)
      | Some rep \<Rightarrow>
          (case Value (rep [] (Attr LevelKey (KindAny (AnyLevel level)))) of
             KindString s \<Rightarrow> Some s
           | KindAny (AnyLevel l) \<Rightarrow> Some (Level_String l)
           | _ \<Rightarrow> None))"

definition os_Stdout :: nat where
  "os_Stdout = 1"

definition fileHandlerOptions :: HandlerOptions where
  "fileHandlerOptions =
     \<lparr>AddSource = True, HandlerOptions.Level = Some LevelTrace, ReplaceAttr = Some replaceAttr\<rparr>"

text \<open>
  \<^verbatim>\<open>init\<close>, in the version that adds the remote sink. The choice of the log directory
  and the opening of the log file are taken by their outcome: the writer of the opened
  file, or none. \<open>getenv\<close> is \<^verbatim>\<open>os.Getenv\<close>, which returns the empty string for a variable
  that is not set. The result is the member list of the dispatcher.
\<close>

definition init :: "(string \<Rightarrow> string) \<Rightarrow> nat option \<Rightarrow> World \<Rightarrow> AnyHandler list \<times> World" where
  "init getenv logFile w =
     (let consoleHandler' = newConsoleHandler os_Stdout
            (Some \<lparr>AddSource = True, HandlerOptions.Level = Some LevelDebug, ReplaceAttr = None\<rparr>);
          handlers = [HConsole consoleHandler'];
          handlers = (case logFile of
                        Some file \<Rightarrow> handlers @ [HJSON (NewJSONHandler file fileHandlerOptions)]
                      | None \<Rightarrow> handlers);
          (victoriaHandler, w') = NewVictoriaLogsHandler (getenv ''VICTORIA_LOGS_ENDPOINT'') w;
          handlers = handlers @ [HVictoria victoriaHandler]
      in (handlers, w'))"

section \<open>The specification's reading of the operations\<close>

text \<open>
  The specification's reading of the dispatcher: each member whose \<^verbatim>\<open>Enabled\<close> holds at
  the record's level is invoked once, in member order, on the world the previous one left,
  whatever the earlier ones returned. \<open>fanout\<close> gives the invoked members with what each
  returned; \<open>first_error\<close> is the first error among the results.
\<close>

fun fanout :: "'w Handler list \<Rightarrow> Context \<Rightarrow> Record \<Rightarrow> 'w \<Rightarrow> ('w Handler \<times> error option) list \<times> 'w" where
  "fanout [] ctx r w = ([], w)"
| "fanout (sink # rest) ctx r w =
     (if Enabled sink ctx (Record.Level r) then
        (let (res, w1) = Handle sink ctx r w;
             (more, w2) = fanout rest ctx r w1
         in ((sink, res) # more, w2))
      else fanout rest ctx r w)"

fun first_error :: "error option list \<Rightarrow> error option" where
  "first_error [] = None"
| "first_error (None # es) = first_error es"
| "first_error (Some e # es) = Some e"

fun errors_of :: "error option list \<Rightarrow> error list" where
  "errors_of [] = []"
| "errors_of (None # es) = errors_of es"
| "errors_of (Some e # es) = e # errors_of es"


definition attr_doc_value :: "Attr \<Rightarrow> iface" where
  "attr_doc_value a =
     (case Value a of
        KindGroup g \<Rightarrow> IMap (addAttrToMap_group Map.empty g)
      | v \<Rightarrow> Value_Any v)"




text \<open>
  \<open>same_transport\<close>: two worlds with the same channels, workers, package variable and
  writers.
\<close>

definition same_transport :: "World \<Rightarrow> World \<Rightarrow> bool" where
  "same_transport w w' =
     (chanBuf w' = chanBuf w \<and> chanCap w' = chanCap w \<and> nextChan w' = nextChan w
      \<and> workers w' = workers w \<and> victoriaLogsHandler w' = victoriaLogsHandler w
      \<and> written w' = written w \<and> writeErr w' = writeErr w)"

section \<open>An environment and inputs for the examples\<close>

text \<open>
  The closed examples below run the handlers in one environment. Its clock prints the
  instant of every example record, the start of 1970 in UTC. Its marshaller stands in for
  \<^verbatim>\<open>encoding/json\<close> on the documents of the examples: it refuses a document whose
  \<^verbatim>\<open>ratio\<close> is a float, as the library refuses NaN, and otherwise writes the fields
  \<^verbatim>\<open>_msg\<close>, \<^verbatim>\<open>_time\<close>, \<^verbatim>\<open>app\<close>, \<^verbatim>\<open>handler\<close> (when present), \<^verbatim>\<open>host\<close> and \<^verbatim>\<open>level\<close>,
  in the library's order of keys, which is the library's text for a document of plain
  strings under these keys and no other. Quoting is Go's on plain text, and \<^verbatim>\<open>append\<close>
  doubles capacities. The world is the one left by \<^verbatim>\<open>NewVictoriaLogsHandler\<close> called
  first.
\<close>

definition json_field :: "iface option \<Rightarrow> string" where
  \<open>json_field v = (case v of Some (IString s) \<Rightarrow> ''"'' @ s @ ''"'' | _ \<Rightarrow> ''null'')\<close>

definition example_env :: Env where
  \<open>example_env =
     \<lparr>hostname = ''node1'',
      appName = ''demo'',
      time_Format = (\<lambda>t layout. if layout = ''15:04:05.000'' then ''00:00:00.000''
                                  else ''1970-01-01T00:00:00Z''),
      json_Marshal = (\<lambda>m. case m ''ratio'' of
                              Some (IFloat64 f) \<Rightarrow> Inl (Error ''json: unsupported value: NaN'')
                            | _ \<Rightarrow> Inr (''{"_msg":'' @ json_field (m ''_msg'')
                                        @ '',"_time":'' @ json_field (m ''_time'')
                                        @ '',"app":'' @ json_field (m ''app'')
                                        @ (case m ''handler'' of
                                             None \<Rightarrow> []
                                           | Some v \<Rightarrow> '',"handler":'' @ json_field (Some v))
                                        @ '',"host":'' @ json_field (m ''host'')
                                        @ '',"level":'' @ json_field (m ''level'')
                                        @ ''}'')),
      callersFrame = (\<lambda>pc. \<lparr>File = ''/src/app/main.go'', Line = 12, Function = ''main.main''\<rparr>),
      fmt_q = (\<lambda>s. ''"'' @ s @ ''"''),
      fmt_g = (\<lambda>f. ''NaN''),
      fmt_v = (\<lambda>v. ''<nil>''),
      growCap = (\<lambda>old n. 2 * old)\<rparr>\<close>

definition empty_world :: World where
  "empty_world =
     \<lparr>arrays = (\<lambda>a. []), nextArray = 0, chanBuf = (\<lambda>c. []), chanCap = (\<lambda>c. 0), nextChan = 0,
      workers = [], victoriaLogsHandler = None, written = (\<lambda>wr. []), writeErr = (\<lambda>wr. None)\<rparr>"

definition example_record :: Record where
  "example_record =
     \<lparr>Time = Instant 0 0, Message = ''multi handler test'', Record.Level = LevelInfo, PC = 0,
      Attrs = [Attr ''handler'' (KindString ''both'')]\<rparr>"

definition example_remote :: VictoriaLogsHandler where
  "example_remote = fst (NewVictoriaLogsHandler [] empty_world)"

definition example_world :: World where
  "example_world = snd (NewVictoriaLogsHandler [] empty_world)"

text \<open>The library's text for the documents of two of the example records.\<close>

definition example_doc :: string where
  \<open>example_doc =
     ''{"_msg":"multi handler test","_time":"1970-01-01T00:00:00Z","app":"demo",''
     @ ''"handler":"both","host":"node1","level":"INFO"}''\<close>


definition request_record :: Record where
  "request_record =
     \<lparr>Time = Instant 0 0, Message = ''request handled'', Record.Level = LevelInfo, PC = 0,
      Attrs = [Attr ''method'' (KindString ''GET'')]\<rparr>"

definition service_console :: consoleHandler where
  "service_console =
     fst (consoleHandler_WithAttrs example_env (newConsoleHandler 2 None)
            [Attr ''service'' (KindString ''api'')] example_world)"

definition service_world :: World where
  "service_world =
     snd (consoleHandler_WithAttrs example_env (newConsoleHandler 2 None)
            [Attr ''service'' (KindString ''api'')] example_world)"


definition duplicate_record :: Record where
  "duplicate_record =
     \<lparr>Time = Instant 0 0, Message = ''retry'', Record.Level = LevelInfo, PC = 0,
      Attrs = [Attr ''attempt'' (KindInt64 1), Attr ''attempt'' (KindInt64 2)]\<rparr>"

text \<open>
  The example world with the channel of the example sink full, and a record at the lowest
  level with the library's text of its document.
\<close>

definition full_world :: World where
  "full_world = example_world\<lparr>chanBuf := (chanBuf example_world)(0 := replicate 2000 ''queued'')\<rparr>"

definition trace_record :: Record where
  "trace_record =
     \<lparr>Time = Instant 0 0, Message = ''trace msg'', Record.Level = LevelTrace, PC = 0, Attrs = []\<rparr>"

definition trace_doc :: string where
  \<open>trace_doc =
     ''{"_msg":"trace msg","_time":"1970-01-01T00:00:00Z","app":"demo",''
     @ ''"host":"node1","level":"TRACE"}''\<close>

section \<open>Facts about the examples\<close>

lemmas Level_defs =
  LevelTrace_def LevelDebug_def LevelInfo_def LevelWarn_def LevelError_def LevelEmergency_def

lemma example_env_simps:
  "hostname example_env = ''node1''"
  "appName example_env = ''demo''"
  "time_Format example_env t ''15:04:05.000'' = ''00:00:00.000''"
  "time_Format example_env t ''2006-01-02T15:04:05.999999999Z07:00'' = ''1970-01-01T00:00:00Z''"
  "fmt_q example_env s = CHR 0x22 # s @ [CHR 0x22]"
  "growCap example_env c n = 2 * c"
  "callersFrame example_env pc = \<lparr>File = ''/src/app/main.go'', Line = 12, Function = ''main.main''\<rparr>"
  by (simp_all add: example_env_def)

lemma example_env_marshal:
  \<open>json_Marshal example_env m =
     (case m ''ratio'' of
        Some (IFloat64 f) \<Rightarrow> Inl (Error ''json: unsupported value: NaN'')
      | _ \<Rightarrow> Inr (''{"_msg":'' @ json_field (m ''_msg'')
                  @ '',"_time":'' @ json_field (m ''_time'')
                  @ '',"app":'' @ json_field (m ''app'')
                  @ (case m ''handler'' of
                       None \<Rightarrow> []
                     | Some v \<Rightarrow> '',"handler":'' @ json_field (Some v))
                  @ '',"host":'' @ json_field (m ''host'')
                  @ '',"level":'' @ json_field (m ''level'')
                  @ ''}''))\<close>
  by (simp add: example_env_def)

lemma example_remote_simps:
  "endpoint example_remote = ''http://oci-aca-001:9428/insert/elasticsearch/_bulk''"
  "client example_remote = httpClient"
  "VictoriaLogsHandler.attrs example_remote = nil_slice"
  "VictoriaLogsHandler.group example_remote = []"
  "logChan example_remote = 0"
  by (simp_all add: example_remote_def NewVictoriaLogsHandler_def chan_make_def empty_world_def Let_def)

lemma example_world_simps:
  "arrays example_world = (\<lambda>a. [])"
  "nextArray example_world = 0"
  "chanBuf example_world = (\<lambda>c. [])"
  "chanCap example_world = (\<lambda>c. 0)(0 := 2000)"
  "nextChan example_world = 1"
  "workers example_world = [example_remote]"
  "victoriaLogsHandler example_world = Some example_remote"
  "written example_world = (\<lambda>wr. [])"
  "writeErr example_world = (\<lambda>wr. None)"
  by (simp_all add: example_world_def example_remote_def NewVictoriaLogsHandler_def chan_make_def
        empty_world_def Let_def fun_eq_iff)

lemma example_record_simps:
  "Time example_record = Instant 0 0"
  "Message example_record = ''multi handler test''"
  "Record.Level example_record = LevelInfo"
  "PC example_record = 0"
  "Attrs example_record = [Attr ''handler'' (KindString ''both'')]"
  by (simp_all add: example_record_def)

lemmas example_simps =
  example_env_simps example_remote_simps example_world_simps example_record_simps

lemma Handle_result:
  "VictoriaLogsHandler_Handle env h ctx r w =
     (case json_Marshal env (VictoriaLogsHandler_entry env h r w) of
        Inl err \<Rightarrow> (Some (Errorf ''failed to encode log entry: '' err), w)
      | Inr doc \<Rightarrow> (None, chan_trySend (logChan h) (createLineBytes @ doc @ [CHR 0x0A]) w))"
  by (simp add: VictoriaLogsHandler_Handle_def json_Encode_def Let_def split: sum.splits)

lemma entry_chanBuf: "VictoriaLogsHandler_entry env h r (w\<lparr>chanBuf := b\<rparr>) = VictoriaLogsHandler_entry env h r w"
  by (simp add: VictoriaLogsHandler_entry_def slice_view_def)

lemma example_entry_fields:
  "VictoriaLogsHandler_entry example_env example_remote example_record w ''ratio'' = None"
  "VictoriaLogsHandler_entry example_env example_remote example_record w ''_msg''
     = Some (IString ''multi handler test'')"
  "VictoriaLogsHandler_entry example_env example_remote example_record w ''_time''
     = Some (IString ''1970-01-01T00:00:00Z'')"
  "VictoriaLogsHandler_entry example_env example_remote example_record w ''app''
     = Some (IString ''demo'')"
  "VictoriaLogsHandler_entry example_env example_remote example_record w ''handler''
     = Some (IString ''both'')"
  "VictoriaLogsHandler_entry example_env example_remote example_record w ''host''
     = Some (IString ''node1'')"
  "VictoriaLogsHandler_entry example_env example_remote example_record w ''level''
     = Some (IString ''INFO'')"
  by (simp_all add: VictoriaLogsHandler_entry_def VictoriaLogsHandler_fields_def slice_view_def
        nil_slice_def Attr_isZero_def example_env_simps example_remote_simps example_record_simps
        getLevelName_def levelNames_def Level_defs Let_def)

lemma example_record_encodes:
  "json_Marshal example_env
     (VictoriaLogsHandler_entry example_env example_remote example_record w) = Inr example_doc"
  by (simp add: example_env_marshal example_entry_fields json_field_def example_doc_def)



section \<open>Level gating\<close>

text \<open>
  C5. A console sink configured with a minimum level is enabled for a level exactly when
  that level is at least the minimum; so for levels \<open>L1 < L2\<close>, a sink whose minimum is
  \<open>L2\<close> is disabled at \<open>L1\<close> and enabled at \<open>L2\<close>.
\<close>

theorem consoleHandler_Enabled_min_level:
  assumes "HandlerOptions.Level (opts h) = Some L2"
  shows "(consoleHandler_Enabled h ctx l \<longleftrightarrow> l \<ge> L2)
       \<and> (L1 < L2 \<longrightarrow> \<not> consoleHandler_Enabled h ctx L1 \<and> consoleHandler_Enabled h ctx L2)"
  using assms by (simp add: consoleHandler_Enabled_def)

theorem consoleHandler_Enabled_min_level_witness:
  "HandlerOptions.Level (opts (newConsoleHandler 1
       (Some \<lparr>AddSource = True, HandlerOptions.Level = Some LevelDebug, ReplaceAttr = None\<rparr>)))
     = Some LevelDebug
   \<and> LevelTrace < LevelDebug
   \<and> \<not> consoleHandler_Enabled (newConsoleHandler 1
       (Some \<lparr>AddSource = True, HandlerOptions.Level = Some LevelDebug, ReplaceAttr = None\<rparr>))
       Background LevelTrace
   \<and> consoleHandler_Enabled (newConsoleHandler 1
       (Some \<lparr>AddSource = True, HandlerOptions.Level = Some LevelDebug, ReplaceAttr = None\<rparr>))
       Background LevelDebug"
proof -
  let ?h = "newConsoleHandler 1
       (Some \<lparr>AddSource = True, HandlerOptions.Level = Some LevelDebug, ReplaceAttr = None\<rparr>)"
  have cfg: "HandlerOptions.Level (opts ?h) = Some LevelDebug"
    by (simp add: newConsoleHandler_def)
  have lt: "LevelTrace < LevelDebug"
    by (simp add: Level_defs)
  from consoleHandler_Enabled_min_level [OF cfg, of Background LevelDebug LevelTrace] cfg lt
  show ?thesis by simp
qed

section \<open>Dispatcher fan-out\<close>

lemma first_error_errors_of:
  "first_error es = (case errors_of es of [] \<Rightarrow> None | e # _ \<Rightarrow> Some e)"
  by (induction es rule: first_error.induct) auto

lemma first_error_None_iff:
  "(first_error es = None) = list_all (\<lambda>res. res = None) es"
  by (induction es rule: first_error.induct) simp_all

lemma loop_fanout:
  "multiHandler_Handle_loop hs ctx r errs w =
     (errs @ errors_of (map snd (fst (fanout hs ctx r w))), snd (fanout hs ctx r w))"
proof (induction hs arbitrary: errs w)
  case Nil
  then show ?case by simp
next
  case (Cons h hs)
  show ?case
  proof (cases "Enabled h ctx (Record.Level r)")
    case False
    then show ?thesis using Cons.IH by simp
  next
    case True
    obtain res w1 where hr: "Handle h ctx r w = (res, w1)" by (cases "Handle h ctx r w")
    show ?thesis
      using True hr Cons.IH [of _ w1]
      by (cases res) (simp_all add: split_def Let_def)
  qed
qed

lemma fanout_invoked:
  "map fst (fst (fanout hs ctx r w)) = filter (\<lambda>h. Enabled h ctx (Record.Level r)) hs"
  by (induction hs arbitrary: w) (simp_all add: split_def Let_def)

text \<open>
  C3. \<^verbatim>\<open>multiHandler.Handle\<close> invokes \<^verbatim>\<open>Handle\<close> on exactly the members enabled at the
  record's level, in member order and whatever the earlier members returned, and returns
  the first error among their results; it returns nil exactly when none of them fails.
\<close>

theorem multiHandler_Handle_fanout:
  "multiHandler_Handle hs ctx r w =
     (first_error (map snd (fst (fanout hs ctx r w))), snd (fanout hs ctx r w))
   \<and> map fst (fst (fanout hs ctx r w)) = filter (\<lambda>h. Enabled h ctx (Record.Level r)) hs
   \<and> (fst (multiHandler_Handle hs ctx r w) = None)
       = list_all (\<lambda>res. res = None) (map snd (fst (fanout hs ctx r w)))"
proof -
  have eq: "multiHandler_Handle hs ctx r w =
     (first_error (map snd (fst (fanout hs ctx r w))), snd (fanout hs ctx r w))"
    unfolding multiHandler_Handle_def loop_fanout first_error_errors_of
    by (simp split: list.splits)
  have none: "(fst (multiHandler_Handle hs ctx r w) = None)
       = list_all (\<lambda>res. res = None) (map snd (fst (fanout hs ctx r w)))"
    unfolding eq by (simp add: first_error_None_iff)
  from eq none show ?thesis by (simp add: fanout_invoked)
qed

lemma multiHandler_Enabled_iff:
  "multiHandler_Enabled hs ctx l = (\<exists>h\<in>set hs. Enabled h ctx l)"
  by (induction hs) auto

theorem multiHandler_Handle_fanout_witness:
  \<open>fst (multiHandler_Handle
      [consoleHandler_iface example_env (newConsoleHandler 2 None),
       VictoriaLogsHandler_iface example_env example_remote]
      Background example_record
      (example_world\<lparr>writeErr := (\<lambda>wr. Some (Error ''closed''))\<rparr>))
    = Some (Error ''closed'')
   \<and> chanBuf (snd (multiHandler_Handle
      [consoleHandler_iface example_env (newConsoleHandler 2 None),
       VictoriaLogsHandler_iface example_env example_remote]
      Background example_record
      (example_world\<lparr>writeErr := (\<lambda>wr. Some (Error ''closed''))\<rparr>))) 0
    = [''{"create":{}}'' @ [CHR 0x0A] @ example_doc @ [CHR 0x0A]]\<close>
proof -
  let ?w = "example_world\<lparr>writeErr := (\<lambda>wr. Some (Error ''closed''))\<rparr>"
  let ?c = "newConsoleHandler 2 None"
  have c: "consoleHandler_Handle example_env ?c Background example_record ?w
             = (Some (Error ''closed''), ?w)"
    by (simp add: consoleHandler_Handle_def Writer_Write_def)
  have v: \<open>VictoriaLogsHandler_Handle example_env example_remote Background example_record ?w
             = (None, ?w\<lparr>chanBuf := (chanBuf ?w)(0 :=
                  [''{"create":{}}'' @ [CHR 0x0A] @ example_doc @ [CHR 0x0A]])\<rparr>)\<close>
    by (simp add: Handle_result example_record_encodes chan_trySend_def createLineBytes_def
          example_simps)
  have e: "consoleHandler_Enabled ?c Background (Record.Level example_record)"
    by (simp add: consoleHandler_Enabled_def newConsoleHandler_def example_simps Level_defs)
  show ?thesis
    using multiHandler_Handle_fanout
     [of "[consoleHandler_iface example_env ?c, VictoriaLogsHandler_iface example_env example_remote]"
      Background example_record ?w]
    by (simp add: consoleHandler_iface_def VictoriaLogsHandler_iface_def
          VictoriaLogsHandler_Enabled_def c v e)
qed

section \<open>The remote sink has no level gate\<close>

lemma multiHandler_Handle_world:
  "snd (multiHandler_Handle hs ctx r w) = snd (fanout hs ctx r w)"
  by (simp add: multiHandler_Handle_def loop_fanout)

lemma fanout_append:
  "fanout (xs @ ys) ctx r w =
     (fst (fanout xs ctx r w) @ fst (fanout ys ctx r (snd (fanout xs ctx r w))),
      snd (fanout ys ctx r (snd (fanout xs ctx r w))))"
  by (induction xs arbitrary: w) (simp_all add: split_def Let_def)

lemma multiHandler_Handle_through_member:
  assumes "Enabled m ctx (Record.Level r)"
  shows "snd (multiHandler_Handle (before @ m # after) ctx r w)
     = snd (multiHandler_Handle after ctx r
              (snd (Handle m ctx r (snd (multiHandler_Handle before ctx r w)))))"
  using assms by (simp add: multiHandler_Handle_world fanout_append split_def Let_def)

text \<open>
  C10, amended. \<^verbatim>\<open>VictoriaLogsHandler.Enabled\<close> holds at every level and in every
  context, so a dispatcher with the remote sink among its members is enabled at every
  level and runs the remote sink's \<^verbatim>\<open>Handle\<close> on every record, on the world the earlier
  members left. \<^verbatim>\<open>Handle\<close> serializes the record whatever its level: when the document
  is encoded and the channel has room the payload is appended to the channel; when the
  channel is full the record is dropped and the result is nil; when the encoder fails
  its error is returned and nothing is enqueued.
\<close>

theorem VictoriaLogsHandler_offered_every_record:
  "VictoriaLogsHandler_Enabled h ctx level
   \<and> multiHandler_Enabled (before @ VictoriaLogsHandler_iface env h # after) ctx level
   \<and> VictoriaLogsHandler_iface env h
       \<in> set (map fst (fst (fanout (before @ VictoriaLogsHandler_iface env h # after) ctx r w)))
   \<and> snd (multiHandler_Handle (before @ VictoriaLogsHandler_iface env h # after) ctx r w)
       = snd (multiHandler_Handle after ctx r
                (snd (VictoriaLogsHandler_Handle env h ctx r
                        (snd (multiHandler_Handle before ctx r w)))))
   \<and> (json_Marshal env (VictoriaLogsHandler_entry env h r w) = Inr doc
        \<and> length (chanBuf w (logChan h)) < chanCap w (logChan h)
        \<longrightarrow> VictoriaLogsHandler_Handle env h ctx r w
            = (None, w\<lparr>chanBuf := (chanBuf w)(logChan h :=
                         chanBuf w (logChan h) @ [createLineBytes @ doc @ [CHR 0x0A]])\<rparr>))
   \<and> (json_Marshal env (VictoriaLogsHandler_entry env h r w) = Inr doc
        \<and> chanCap w (logChan h) \<le> length (chanBuf w (logChan h))
        \<longrightarrow> VictoriaLogsHandler_Handle env h ctx r w = (None, w))
   \<and> (json_Marshal env (VictoriaLogsHandler_entry env h r w) = Inl err
        \<longrightarrow> VictoriaLogsHandler_Handle env h ctx r w
            = (Some (Errorf ''failed to encode log entry: '' err), w))"
proof -
  have en: "Enabled (VictoriaLogsHandler_iface env h) ctx (Record.Level r)"
    by (simp add: VictoriaLogsHandler_iface_def VictoriaLogsHandler_Enabled_def)
  have through: "snd (multiHandler_Handle (before @ VictoriaLogsHandler_iface env h # after) ctx r w)
       = snd (multiHandler_Handle after ctx r
                (snd (VictoriaLogsHandler_Handle env h ctx r
                        (snd (multiHandler_Handle before ctx r w)))))"
    using multiHandler_Handle_through_member [OF en, of before after w]
    by (simp add: VictoriaLogsHandler_iface_def)
  have gate: "VictoriaLogsHandler_Enabled h ctx level
   \<and> multiHandler_Enabled (before @ VictoriaLogsHandler_iface env h # after) ctx level
   \<and> VictoriaLogsHandler_iface env h
       \<in> set (map fst (fst (fanout (before @ VictoriaLogsHandler_iface env h # after) ctx r w)))"
    by (simp add: VictoriaLogsHandler_Enabled_def multiHandler_Enabled_iff fanout_invoked
        VictoriaLogsHandler_iface_def)
  have room: "json_Marshal env (VictoriaLogsHandler_entry env h r w) = Inr doc
        \<and> length (chanBuf w (logChan h)) < chanCap w (logChan h)
        \<longrightarrow> VictoriaLogsHandler_Handle env h ctx r w
            = (None, w\<lparr>chanBuf := (chanBuf w)(logChan h :=
                         chanBuf w (logChan h) @ [createLineBytes @ doc @ [CHR 0x0A]])\<rparr>)"
    by (simp add: Handle_result chan_trySend_def)
  have full: "json_Marshal env (VictoriaLogsHandler_entry env h r w) = Inr doc
        \<and> chanCap w (logChan h) \<le> length (chanBuf w (logChan h))
        \<longrightarrow> VictoriaLogsHandler_Handle env h ctx r w = (None, w)"
    by (simp add: Handle_result chan_trySend_def)
  have bad: "json_Marshal env (VictoriaLogsHandler_entry env h r w) = Inl err
        \<longrightarrow> VictoriaLogsHandler_Handle env h ctx r w
            = (Some (Errorf ''failed to encode log entry: '' err), w)"
    by (simp add: Handle_result)
  from gate through room full bad show ?thesis by blast
qed

lemma full_world_simps:
  "chanBuf full_world 0 = replicate 2000 ''queued''"
  "chanCap full_world 0 = 2000"
  by (simp_all add: full_world_def example_simps)

lemma full_world_entry:
  "VictoriaLogsHandler_entry env h r full_world = VictoriaLogsHandler_entry env h r example_world"
  by (simp add: full_world_def entry_chanBuf)

text \<open>
  C10 fails as stated: the remote sink is enabled and the dispatcher offers it the record,
  but the channel is full, so the record is not enqueued.
\<close>

theorem offered_record_not_enqueued_counterexample:
  "VictoriaLogsHandler_Enabled example_remote Background (Record.Level example_record)
   \<and> multiHandler_Handle [VictoriaLogsHandler_iface example_env example_remote]
        Background example_record full_world = (None, full_world)
   \<and> createLineBytes @ example_doc @ [CHR 0x0A] \<notin> set (chanBuf full_world (logChan example_remote))"
proof -
  have h: "VictoriaLogsHandler_Handle example_env example_remote Background example_record full_world
             = (None, full_world)"
    by (simp add: Handle_result full_world_entry example_record_encodes chan_trySend_def
          full_world_simps example_remote_simps)
  have m: "multiHandler_Handle [VictoriaLogsHandler_iface example_env example_remote]
        Background example_record full_world = (None, full_world)"
    by (simp add: multiHandler_Handle_def VictoriaLogsHandler_iface_def
          VictoriaLogsHandler_Enabled_def h)
  have n: "createLineBytes @ example_doc @ [CHR 0x0A] \<notin> set (chanBuf full_world (logChan example_remote))"
    by (simp add: full_world_simps example_remote_simps createLineBytes_def)
  from m n show ?thesis by (simp add: VictoriaLogsHandler_Enabled_def)
qed

lemma trace_entry_fields:
  "VictoriaLogsHandler_entry example_env example_remote trace_record w ''ratio'' = None"
  "VictoriaLogsHandler_entry example_env example_remote trace_record w ''_msg''
     = Some (IString ''trace msg'')"
  "VictoriaLogsHandler_entry example_env example_remote trace_record w ''_time''
     = Some (IString ''1970-01-01T00:00:00Z'')"
  "VictoriaLogsHandler_entry example_env example_remote trace_record w ''app''
     = Some (IString ''demo'')"
  "VictoriaLogsHandler_entry example_env example_remote trace_record w ''handler'' = None"
  "VictoriaLogsHandler_entry example_env example_remote trace_record w ''host''
     = Some (IString ''node1'')"
  "VictoriaLogsHandler_entry example_env example_remote trace_record w ''level''
     = Some (IString ''TRACE'')"
  by (simp_all add: VictoriaLogsHandler_entry_def VictoriaLogsHandler_fields_def slice_view_def
        nil_slice_def example_env_simps example_remote_simps trace_record_def
        getLevelName_def levelNames_def Level_defs Let_def)

lemma trace_record_encodes:
  "json_Marshal example_env
     (VictoriaLogsHandler_entry example_env example_remote trace_record w) = Inr trace_doc"
  by (simp add: example_env_marshal trace_entry_fields json_field_def trace_doc_def)

theorem VictoriaLogsHandler_offered_every_record_witness:
  "Record.Level trace_record = LevelTrace
   \<and> \<not> consoleHandler_Enabled (newConsoleHandler 2 None) Background LevelTrace
   \<and> json_Marshal example_env
        (VictoriaLogsHandler_entry example_env example_remote trace_record example_world)
       = Inr trace_doc
   \<and> length (chanBuf example_world (logChan example_remote))
       < chanCap example_world (logChan example_remote)
   \<and> chanBuf (snd (multiHandler_Handle
         ([consoleHandler_iface example_env (newConsoleHandler 2 None)]
            @ VictoriaLogsHandler_iface example_env example_remote # [])
         Background trace_record example_world)) (logChan example_remote)
       = [createLineBytes @ trace_doc @ [CHR 0x0A]]"
proof -
  let ?c = "newConsoleHandler 2 None"
  have lvl: "Record.Level trace_record = LevelTrace"
    by (simp add: trace_record_def)
  have off: "\<not> consoleHandler_Enabled ?c Background LevelTrace"
    by (simp add: consoleHandler_Enabled_def newConsoleHandler_def Level_defs)
  have enc: "json_Marshal example_env
        (VictoriaLogsHandler_entry example_env example_remote trace_record example_world)
       = Inr trace_doc"
    by (rule trace_record_encodes)
  have room: "length (chanBuf example_world (logChan example_remote))
       < chanCap example_world (logChan example_remote)"
    by (simp add: example_simps)
  have before: "multiHandler_Handle [consoleHandler_iface example_env ?c] Background trace_record
                  example_world = (None, example_world)"
    using off by (simp add: multiHandler_Handle_def consoleHandler_iface_def lvl)
  have after: "multiHandler_Handle [] Background trace_record w = (None, w)" for w :: World
    by (simp add: multiHandler_Handle_def)
  note inst = VictoriaLogsHandler_offered_every_record
    [where h = example_remote and ctx = Background and level = LevelTrace
       and before = "[consoleHandler_iface example_env ?c]" and env = example_env
       and after = "[]" and r = trace_record and w = example_world and doc = trace_doc]
  have "chanBuf (snd (multiHandler_Handle
         ([consoleHandler_iface example_env ?c]
            @ VictoriaLogsHandler_iface example_env example_remote # [])
         Background trace_record example_world)) (logChan example_remote)
       = [createLineBytes @ trace_doc @ [CHR 0x0A]]"
    using inst enc room by (simp add: before after example_simps)
  with lvl off enc room show ?thesis by blast
qed

section \<open>Construction of the remote sink at start\<close>

text \<open>
  C4, evaluated on the code. With \<^verbatim>\<open>VICTORIA_LOGS_ENDPOINT\<close> unset, \<^verbatim>\<open>init\<close> still
  constructs the remote sink, on the default endpoint, starts its worker and makes it the
  last member of the dispatcher.
\<close>

theorem init_without_endpoint:
  "fst (init (\<lambda>name. []) logFile w)
     = (case logFile of
          None \<Rightarrow> [HConsole (newConsoleHandler os_Stdout
                     (Some \<lparr>AddSource = True, HandlerOptions.Level = Some LevelDebug, ReplaceAttr = None\<rparr>))]
        | Some file \<Rightarrow> [HConsole (newConsoleHandler os_Stdout
                     (Some \<lparr>AddSource = True, HandlerOptions.Level = Some LevelDebug, ReplaceAttr = None\<rparr>)),
                       HJSON (NewJSONHandler file fileHandlerOptions)])
       @ [HVictoria \<lparr>endpoint = ''http://oci-aca-001:9428/insert/elasticsearch/_bulk'',
                      client = httpClient, VictoriaLogsHandler.attrs = nil_slice,
                      VictoriaLogsHandler.group = [], logChan = nextChan w\<rparr>]
   \<and> workers (snd (init (\<lambda>name. []) logFile w)) = workers w @
        [\<lparr>endpoint = ''http://oci-aca-001:9428/insert/elasticsearch/_bulk'',
                      client = httpClient, VictoriaLogsHandler.attrs = nil_slice,
                      VictoriaLogsHandler.group = [], logChan = nextChan w\<rparr>]"
  by (simp add: init_def NewVictoriaLogsHandler_def chan_make_def Let_def split: option.splits)

section \<open>Level names in the structured documents\<close>

text \<open>
  C7, evaluated on the code. The file sink names level 12 \<^verbatim>\<open>EMER\<close>, where the remote
  sink names it \<^verbatim>\<open>EMERGENCY\<close>; both name level -8 \<^verbatim>\<open>TRACE\<close>.
\<close>

theorem file_sink_level_names:
  "replaceAttr groups (Attr LevelKey (KindAny (AnyLevel LevelEmergency)))
     = Attr LevelKey (KindString ''EMER'')
   \<and> JSONHandler_levelName fileHandlerOptions LevelEmergency = Some ''EMER''
   \<and> getLevelName LevelEmergency = ''EMERGENCY''
   \<and> replaceAttr groups (Attr LevelKey (KindAny (AnyLevel LevelTrace)))
     = Attr LevelKey (KindString ''TRACE'')
   \<and> JSONHandler_levelName fileHandlerOptions LevelTrace = Some ''TRACE''
   \<and> getLevelName LevelTrace = ''TRACE''"
  by (simp add: JSONHandler_levelName_def fileHandlerOptions_def replaceAttr_def getLevelName_def
        levelNames_def Level_defs LevelKey_def)

section \<open>Backpressure on the remote sink\<close>

text \<open>
  C1. The channel made by \<^verbatim>\<open>NewVictoriaLogsHandler\<close> holds 2000 entries. \<^verbatim>\<open>Handle\<close>
  offers the payload to it without waiting: what \<^verbatim>\<open>Handle\<close> returns does not depend on
  the contents of the channel; when the channel is full the world is left as it was (the
  record is dropped) and, the document being encoded, the result is nil; when there is
  room the payload is appended. The only error \<^verbatim>\<open>Handle\<close> returns is the encoder's.
\<close>

theorem VictoriaLogsHandler_Handle_backpressure:
  "chanCap (snd (NewVictoriaLogsHandler e w0)) (logChan (fst (NewVictoriaLogsHandler e w0))) = 2000
   \<and> fst (VictoriaLogsHandler_Handle env h ctx r (w\<lparr>chanBuf := b\<rparr>))
       = fst (VictoriaLogsHandler_Handle env h ctx r w)
   \<and> (chanCap w (logChan h) \<le> length (chanBuf w (logChan h))
        \<longrightarrow> snd (VictoriaLogsHandler_Handle env h ctx r w) = w)
   \<and> (json_Marshal env (VictoriaLogsHandler_entry env h r w) = Inr doc
        \<longrightarrow> fst (VictoriaLogsHandler_Handle env h ctx r w) = None
          \<and> (length (chanBuf w (logChan h)) < chanCap w (logChan h)
               \<longrightarrow> snd (VictoriaLogsHandler_Handle env h ctx r w)
                   = w\<lparr>chanBuf := (chanBuf w)(logChan h :=
                         chanBuf w (logChan h) @ [createLineBytes @ doc @ [CHR 0x0A]])\<rparr>))"
proof -
  have cap2000: "chanCap (snd (NewVictoriaLogsHandler e w0)) (logChan (fst (NewVictoriaLogsHandler e w0))) = 2000"
    by (simp add: NewVictoriaLogsHandler_def chan_make_def Let_def)
  have indep: "fst (VictoriaLogsHandler_Handle env h ctx r (w\<lparr>chanBuf := b\<rparr>))
       = fst (VictoriaLogsHandler_Handle env h ctx r w)"
    by (simp add: Handle_result entry_chanBuf split: sum.splits)
  have full: "chanCap w (logChan h) \<le> length (chanBuf w (logChan h))
        \<longrightarrow> snd (VictoriaLogsHandler_Handle env h ctx r w) = w"
    by (simp add: Handle_result chan_trySend_def split: sum.splits)
  have ok: "json_Marshal env (VictoriaLogsHandler_entry env h r w) = Inr doc
        \<longrightarrow> fst (VictoriaLogsHandler_Handle env h ctx r w) = None
          \<and> (length (chanBuf w (logChan h)) < chanCap w (logChan h)
               \<longrightarrow> snd (VictoriaLogsHandler_Handle env h ctx r w)
                   = w\<lparr>chanBuf := (chanBuf w)(logChan h :=
                         chanBuf w (logChan h) @ [createLineBytes @ doc @ [CHR 0x0A]])\<rparr>)"
    by (simp add: Handle_result chan_trySend_def)
  from cap2000 indep full ok show ?thesis by blast
qed

theorem VictoriaLogsHandler_Handle_backpressure_witness:
  "chanCap example_world (logChan example_remote) = 2000
   \<and> length (chanBuf (example_world\<lparr>chanBuf := (\<lambda>ch. replicate 2000 ''queued'')\<rparr>) (logChan example_remote)) = 2000
   \<and> VictoriaLogsHandler_Handle example_env example_remote Background example_record
        (example_world\<lparr>chanBuf := (\<lambda>ch. replicate 2000 ''queued'')\<rparr>)
       = (None, example_world\<lparr>chanBuf := (\<lambda>ch. replicate 2000 ''queued'')\<rparr>)"
proof -
  let ?w = "example_world\<lparr>chanBuf := (\<lambda>ch. replicate 2000 ''queued'')\<rparr>"
  note inst = VictoriaLogsHandler_Handle_backpressure
    [where e = "[]" and ?w0.0 = empty_world and env = example_env and h = example_remote
       and ctx = Background and r = example_record and w = example_world
       and b = "\<lambda>ch. replicate 2000 ''queued''" and doc = example_doc]
  have enc: "json_Marshal example_env (VictoriaLogsHandler_entry example_env example_remote example_record example_world)
      = Inr example_doc"
    by (rule example_record_encodes)
  have full: "chanCap ?w (logChan example_remote) \<le> length (chanBuf ?w (logChan example_remote))"
    by (simp add: example_simps)
  have c: "chanCap example_world (logChan example_remote) = 2000"
    by (simp add: example_simps)
  have "fst (VictoriaLogsHandler_Handle example_env example_remote Background example_record ?w) = None"
    using inst enc by simp
  moreover have "snd (VictoriaLogsHandler_Handle example_env example_remote Background example_record ?w) = ?w"
    using VictoriaLogsHandler_Handle_backpressure
      [where e = "[]" and ?w0.0 = empty_world and env = example_env and h = example_remote
       and ctx = Background and r = example_record and w = ?w
       and b = "\<lambda>ch. replicate 2000 ''queued''" and doc = example_doc] full
    by blast
  ultimately show ?thesis using c by (simp add: prod_eq_iff)
qed

section \<open>What the remote sink stores under a key\<close>








section \<open>The console line as a concatenation\<close>

lemma appendAttr_group_buf:
  assumes "\<And>a b g. a \<in> set attrs' \<Longrightarrow> appendAttr env b a g = b @ appendAttr env [] a g"
  shows "appendAttr_group env b attrs' first key = b @ appendAttr_group env [] attrs' first key"
  using assms
proof (induction attrs' arbitrary: b first)
  case Nil
  then show ?case by simp
next
  case (Cons a rest)
  have step: "appendAttr_group env b' rest False key = b' @ appendAttr_group env [] rest False key"
    for b'
    by (rule Cons.IH) (rule Cons.prems, simp)
  have here: "appendAttr env b' a key = b' @ appendAttr env [] a key" for b'
    by (rule Cons.prems) simp
  show ?case
  proof (cases first)
    case True
    then show ?thesis
      using step [of "appendAttr env b a key"] step [of "appendAttr env [] a key"] here [of b]
      by simp
  next
    case False
    then show ?thesis
      using step [of "appendAttr env (b @ '' '') a key"] step [of "appendAttr env '' '' a key"]
            here [of "b @ '' ''"] here [of "'' ''"]
      by simp
  qed
qed

lemma appendAttr_buf:
  "appendAttr env b a g = b @ appendAttr env [] a g"
proof -
  have "\<forall>env b g. appendAttr env b a g = b @ appendAttr env [] a g"
  proof (rule Attr.induct
      [where ?P1.0 = "\<lambda>v. \<forall>env b k g. appendAttr env b (Attr k v) g = b @ appendAttr env [] (Attr k v) g"
         and ?P2.0 = "\<lambda>a. \<forall>env b g. appendAttr env b a g = b @ appendAttr env [] a g"])
    fix xs :: "Attr list"
    assume IH: "\<And>a. a \<in> set xs \<Longrightarrow> \<forall>env b g. appendAttr env b a g = b @ appendAttr env [] a g"
    show "\<forall>env b k g. appendAttr env b (Attr k (KindGroup xs)) g
                 = b @ appendAttr env [] (Attr k (KindGroup xs)) g"
    proof (intro allI)
      fix env b k g
      let ?key = "if g \<noteq> [] then g @ ''.'' @ k else k"
      have grp: "\<And>b'. appendAttr_group env b' xs True ?key = b' @ appendAttr_group env [] xs True ?key"
        using appendAttr_group_buf [of xs env] IH by blast
      show "appendAttr env b (Attr k (KindGroup xs)) g = b @ appendAttr env [] (Attr k (KindGroup xs)) g"
        using grp [of "b @ colorPurple @ ?key @ colorReset @ ''='' @ ''{''"]
              grp [of "colorPurple @ ?key @ colorReset @ ''='' @ ''{''"]
        by (simp add: Let_def Attr_isZero_def)
    qed
  next
    fix k :: string and v :: Value
    assume "\<forall>env b k g. appendAttr env b (Attr k v) g = b @ appendAttr env [] (Attr k v) g"
    then show "\<forall>env b g. appendAttr env b (Attr k v) g = b @ appendAttr env [] (Attr k v) g"
      by blast
  qed (simp_all add: Let_def)
  then show ?thesis by blast
qed

lemma foldl_appendAttr:
  "foldl (\<lambda>b a. appendAttr env (b @ '' '') a g) buf attrs'
     = buf @ concat (map (\<lambda>a. appendAttr env '' '' a g) attrs')"
proof (induction attrs' arbitrary: buf)
  case Nil
  then show ?case by simp
next
  case (Cons a rest)
  show ?case
    using Cons.IH [of "appendAttr env (buf @ '' '') a g"]
          appendAttr_buf [of env "buf @ '' ''" a g] appendAttr_buf [of env "'' ''" a g]
    by simp
qed

section \<open>Slices: what \<^verbatim>\<open>make\<close> and \<^verbatim>\<open>append\<close> change\<close>

lemma same_transport_trans: "same_transport w w1 \<Longrightarrow> same_transport w1 w2 \<Longrightarrow> same_transport w w2"
  by (simp add: same_transport_def)

lemma length_list_write: "i + length xs \<le> length arr \<Longrightarrow> length (list_write arr i xs) = length arr"
  by (simp add: list_write_def)

lemma take_list_write: "i + length xs \<le> length arr \<Longrightarrow> take (i + length xs) (list_write arr i xs) = take i arr @ xs"
  by (simp add: list_write_def)

lemma take_list_write_before: "j \<le> i \<Longrightarrow> i \<le> length arr \<Longrightarrow> take j (list_write arr i xs) = take j arr"
  by (simp add: list_write_def)

lemma slice_make_facts:
  "fst (slice_make n w) = \<lparr>addr = nextArray w, len = 0, cap = n\<rparr>"
  "nextArray (snd (slice_make n w)) = Suc (nextArray w)"
  "arrays (snd (slice_make n w)) = (arrays w)(nextArray w := replicate n zeroAttr)"
  "same_transport w (snd (slice_make n w))"
  by (simp_all add: slice_make_def same_transport_def)

lemma slice_make_valid: "slice_valid (snd (slice_make n w)) (fst (slice_make n w))"
  by (simp add: slice_make_def slice_valid_def)

lemma slice_make_keeps_valid: "slice_valid w t \<Longrightarrow> slice_valid (snd (slice_make n w)) t"
  by (auto simp add: slice_make_def slice_valid_def)

lemma slice_make_keeps_view: "slice_valid w t \<Longrightarrow> slice_view (snd (slice_make n w)) t = slice_view w t"
  by (auto simp add: slice_make_def slice_valid_def slice_view_def)

lemma slice_view_length: "slice_valid w s \<Longrightarrow> length (slice_view w s) = len s"
  by (auto simp add: slice_valid_def slice_view_def)

lemma slice_append_transport: "same_transport w (snd (slice_append env s xs w))"
  by (simp add: slice_append_def same_transport_def Let_def)

lemma slice_append_nextArray: "nextArray w \<le> nextArray (snd (slice_append env s xs w))"
  by (simp add: slice_append_def Let_def)

lemma slice_append_view:
  assumes "slice_valid w s"
  shows "slice_view (snd (slice_append env s xs w)) (fst (slice_append env s xs w)) = slice_view w s @ xs"
proof (cases "len s + length xs \<le> cap s")
  case True
  then have "len s + length xs \<le> length (arrays w (addr s))"
    using assms by (auto simp add: slice_valid_def)
  then show ?thesis
    using True by (simp add: slice_append_def slice_view_def take_list_write)
next
  case False
  then show ?thesis
    using slice_view_length [OF assms]
    by (simp add: slice_append_def slice_view_def Let_def)
qed

lemma slice_append_valid:
  assumes "slice_valid w s"
  shows "slice_valid (snd (slice_append env s xs w)) (fst (slice_append env s xs w))"
proof (cases "len s + length xs \<le> cap s")
  case True
  then show ?thesis
    using assms by (auto simp add: slice_append_def slice_valid_def length_list_write)
next
  case False
  then show ?thesis
    using slice_view_length [OF assms]
    by (simp add: slice_append_def slice_valid_def Let_def)
qed

lemma slice_append_keeps_valid:
  assumes "slice_valid w s" and "slice_valid w t"
  shows "slice_valid (snd (slice_append env s xs w)) t"
proof (cases "len s + length xs \<le> cap s")
  case True
  then have "len s + length xs \<le> length (arrays w (addr s))"
    using assms(1) by (auto simp add: slice_valid_def)
  then show ?thesis
    using True assms(2) by (auto simp add: slice_append_def slice_valid_def length_list_write)
next
  case False
  then show ?thesis
    using assms(2) by (auto simp add: slice_append_def slice_valid_def Let_def)
qed

lemma slice_append_keeps_view:
  assumes "slice_valid w s" and "slice_valid w t" and "addr t \<noteq> addr s \<or> len t \<le> len s"
  shows "slice_view (snd (slice_append env s xs w)) t = slice_view w t"
proof (cases "len s + length xs \<le> cap s")
  case True
  then have fit: "len s \<le> length (arrays w (addr s))"
    using assms(1) by (auto simp add: slice_valid_def)
  show ?thesis
  proof (cases "addr t = addr s")
    case same: True
    then have "len t \<le> len s" using assms(3) by simp
    then show ?thesis
      using True same fit by (simp add: slice_append_def slice_view_def take_list_write_before)
  next
    case False
    then show ?thesis
      using True by (simp add: slice_append_def slice_view_def)
  qed
next
  case False
  then show ?thesis
    using assms(2) by (auto simp add: slice_append_def slice_valid_def slice_view_def Let_def)
qed

lemma slice_view_empty: "len s = 0 \<Longrightarrow> slice_view w s = []"
  by (simp add: slice_view_def)

lemma slice_append_other_arrays:
  assumes "a \<noteq> addr s \<or> cap s = 0" and "a < nextArray w"
  shows "arrays (snd (slice_append env s xs w)) a = arrays w a"
  using assms by (auto simp add: slice_append_def Let_def list_write_def)

lemma slice_append_nil_addr:
  "cap (fst (slice_append env nil_slice xs w)) = 0
   \<or> addr (fst (slice_append env nil_slice xs w)) = nextArray w"
  by (simp add: slice_append_def Let_def nil_slice_def)

lemma nil_slice_valid: "slice_valid w nil_slice"
  by (simp add: slice_valid_def nil_slice_def)

lemma consoleHandler_WithAttrs_facts:
  fixes env :: Env and h :: consoleHandler and attrs' :: "Attr list" and w :: World
  assumes v: "slice_valid w (consoleHandler.attrs h)"
  defines "h2 \<equiv> fst (consoleHandler_WithAttrs env h attrs' w)"
      and "w2 \<equiv> snd (consoleHandler_WithAttrs env h attrs' w)"
  shows "opts h2 = opts h" and "out h2 = out h"
    and "consoleHandler.group h2 = consoleHandler.group h"
    and "slice_view w2 (consoleHandler.attrs h2) = slice_view w (consoleHandler.attrs h) @ attrs'"
    and "slice_valid w2 (consoleHandler.attrs h2)"
    and "same_transport w w2"
    and "\<And>t. slice_valid w t \<Longrightarrow>
            addr t \<noteq> addr (consoleHandler.attrs h) \<or> len t \<le> len (consoleHandler.attrs h) \<Longrightarrow>
            slice_view w2 t = slice_view w t \<and> slice_valid w2 t"
proof -
  let ?s = "consoleHandler.attrs h"
  let ?n = "len ?s + length attrs'"
  let ?dst = "fst (slice_make ?n w)"
  let ?w1 = "snd (slice_make ?n w)"
  let ?tmp = "fst (slice_append env ?s attrs' ?w1)"
  let ?w2 = "snd (slice_append env ?s attrs' ?w1)"
  let ?res = "fst (slice_append env ?dst (slice_view ?w2 ?tmp) ?w2)"
  let ?w3 = "snd (slice_append env ?dst (slice_view ?w2 ?tmp) ?w2)"
  have h2: "h2 = \<lparr>opts = opts h, out = out h, consoleHandler.attrs = ?res,
                   consoleHandler.group = consoleHandler.group h\<rparr>"
    and w2: "w2 = ?w3"
    by (simp_all add: h2_def w2_def consoleHandler_WithAttrs_def split_def Let_def)
  have dst: "?dst = \<lparr>addr = nextArray w, len = 0, cap = ?n\<rparr>"
    by (simp add: slice_make_facts)
  have v1: "slice_valid ?w1 ?s" by (rule slice_make_keeps_valid [OF v])
  have d1: "slice_valid ?w1 ?dst" by (rule slice_make_valid)
  have tmpv: "slice_view ?w2 ?tmp = slice_view w ?s @ attrs'"
    using slice_append_view [OF v1] slice_make_keeps_view [OF v] by simp
  have d2: "slice_valid ?w2 ?dst" by (rule slice_append_keeps_valid [OF v1 d1])
  have resv: "slice_view ?w3 ?res = slice_view ?w2 ?dst @ slice_view ?w2 ?tmp"
    by (rule slice_append_view [OF d2])
  have dst_empty: "slice_view ?w2 ?dst = []"
    by (rule slice_view_empty) (simp add: dst)
  show "opts h2 = opts h" "out h2 = out h" "consoleHandler.group h2 = consoleHandler.group h"
    by (simp_all add: h2)
  show "slice_view w2 (consoleHandler.attrs h2) = slice_view w ?s @ attrs'"
    using resv dst_empty tmpv by (simp add: h2 w2)
  show "slice_valid w2 (consoleHandler.attrs h2)"
    using slice_append_valid [OF d2] by (simp add: h2 w2)
  show "same_transport w w2"
    unfolding w2
    by (rule same_transport_trans [OF same_transport_trans
          [OF slice_make_facts(4) slice_append_transport] slice_append_transport])
  fix t
  assume t: "slice_valid w t"
    and sep: "addr t \<noteq> addr ?s \<or> len t \<le> len ?s"
  have t1: "slice_valid ?w1 t" by (rule slice_make_keeps_valid [OF t])
  have t2: "slice_valid ?w2 t" by (rule slice_append_keeps_valid [OF v1 t1])
  have t3: "slice_valid ?w3 t" by (rule slice_append_keeps_valid [OF d2 t2])
  have e1: "slice_view ?w1 t = slice_view w t" by (rule slice_make_keeps_view [OF t])
  have e2: "slice_view ?w2 t = slice_view ?w1 t"
    by (rule slice_append_keeps_view [OF v1 t1 sep])
  have away: "addr t \<noteq> addr ?dst \<or> len t \<le> len ?dst"
    using t by (auto simp add: dst slice_valid_def)
  have e3: "slice_view ?w3 t = slice_view ?w2 t"
    by (rule slice_append_keeps_view [OF d2 t2 away])
  show "slice_view w2 t = slice_view w t \<and> slice_valid w2 t"
    using e1 e2 e3 t3 by (simp add: w2)
qed

lemma consoleHandler_WithGroup_facts:
  fixes env :: Env and h :: consoleHandler and name :: string and w :: World
  assumes v: "slice_valid w (consoleHandler.attrs h)"
  defines "h2 \<equiv> fst (consoleHandler_WithGroup env h name w)"
      and "w2 \<equiv> snd (consoleHandler_WithGroup env h name w)"
  shows "opts h2 = opts h" and "out h2 = out h"
    and "consoleHandler.group h2 =
           (if consoleHandler.group h \<noteq> [] then consoleHandler.group h @ ''.'' @ name else name)"
    and "slice_view w2 (consoleHandler.attrs h2) = slice_view w (consoleHandler.attrs h)"
    and "slice_valid w2 (consoleHandler.attrs h2)"
    and "same_transport w w2"
    and "\<And>t. slice_valid w t \<Longrightarrow> slice_view w2 t = slice_view w t \<and> slice_valid w2 t"
proof -
  let ?s = "consoleHandler.attrs h"
  let ?dst = "fst (slice_make (len ?s) w)"
  let ?w1 = "snd (slice_make (len ?s) w)"
  let ?res = "fst (slice_append env ?dst (slice_view ?w1 ?s) ?w1)"
  let ?w2 = "snd (slice_append env ?dst (slice_view ?w1 ?s) ?w1)"
  have h2: "h2 = \<lparr>opts = opts h, out = out h, consoleHandler.attrs = ?res,
                   consoleHandler.group =
                     (if consoleHandler.group h \<noteq> [] then consoleHandler.group h @ ''.'' @ name
                      else name)\<rparr>"
    and w2: "w2 = ?w2"
    by (simp_all add: h2_def w2_def consoleHandler_WithGroup_def split_def Let_def)
  have dst: "?dst = \<lparr>addr = nextArray w, len = 0, cap = len ?s\<rparr>"
    by (simp add: slice_make_facts)
  have d1: "slice_valid ?w1 ?dst" by (rule slice_make_valid)
  have resv: "slice_view ?w2 ?res = slice_view ?w1 ?dst @ slice_view ?w1 ?s"
    by (rule slice_append_view [OF d1])
  have dst_empty: "slice_view ?w1 ?dst = []"
    by (rule slice_view_empty) (simp add: dst)
  show "opts h2 = opts h" "out h2 = out h"
    "consoleHandler.group h2 =
           (if consoleHandler.group h \<noteq> [] then consoleHandler.group h @ ''.'' @ name else name)"
    by (simp_all add: h2)
  show "slice_view w2 (consoleHandler.attrs h2) = slice_view w ?s"
    using resv dst_empty slice_make_keeps_view [OF v] by (simp add: h2 w2)
  show "slice_valid w2 (consoleHandler.attrs h2)"
    using slice_append_valid [OF d1] by (simp add: h2 w2)
  show "same_transport w w2"
    unfolding w2
    by (rule same_transport_trans [OF slice_make_facts(4) slice_append_transport])
  fix t
  assume t: "slice_valid w t"
  have t1: "slice_valid ?w1 t" by (rule slice_make_keeps_valid [OF t])
  have t2: "slice_valid ?w2 t" by (rule slice_append_keeps_valid [OF d1 t1])
  have away: "addr t \<noteq> addr ?dst \<or> len t \<le> len ?dst"
    using t by (auto simp add: dst slice_valid_def)
  have "slice_view ?w2 t = slice_view ?w1 t"
    by (rule slice_append_keeps_view [OF d1 t1 away])
  then show "slice_view w2 t = slice_view w t \<and> slice_valid w2 t"
    using slice_make_keeps_view [OF t] t2 by (simp add: w2)
qed

lemma old_arrays_keep_slices:
  assumes "slice_valid w t" and "\<And>a. a < nextArray w \<Longrightarrow> arrays w' a = arrays w a"
    and "nextArray w \<le> nextArray w'"
  shows "slice_view w' t = slice_view w t \<and> slice_valid w' t"
proof (cases "cap t = 0")
  case True
  then show ?thesis using assms(1) by (simp add: slice_valid_def slice_view_def)
next
  case False
  then have "addr t < nextArray w" using assms(1) by (simp add: slice_valid_def)
  then show ?thesis
    using assms by (auto simp add: slice_valid_def slice_view_def)
qed

lemma append_to_copy_old_arrays:
  assumes "a < nextArray w"
  shows "arrays (snd (slice_append env (fst (slice_append env nil_slice xs w)) ys
                    (snd (slice_append env nil_slice xs w)))) a = arrays w a"
proof -
  let ?tmp = "fst (slice_append env nil_slice xs w)"
  let ?w1 = "snd (slice_append env nil_slice xs w)"
  have first: "arrays ?w1 a = arrays w a"
    by (rule slice_append_other_arrays) (simp_all add: nil_slice_def assms)
  have lt: "a < nextArray ?w1"
    using assms slice_append_nextArray [of w env nil_slice xs] by simp
  have "a \<noteq> addr ?tmp \<or> cap ?tmp = 0"
    using slice_append_nil_addr [of env xs w] assms by auto
  then have "arrays (snd (slice_append env ?tmp ys ?w1)) a = arrays ?w1 a"
    using lt by (rule slice_append_other_arrays)
  then show ?thesis using first by simp
qed

lemma VictoriaLogsHandler_WithAttrs_facts:
  fixes env :: Env and h :: VictoriaLogsHandler and attrs' :: "Attr list" and w :: World
  assumes v: "slice_valid w (VictoriaLogsHandler.attrs h)"
  defines "h2 \<equiv> fst (VictoriaLogsHandler_WithAttrs env h attrs' w)"
      and "w2 \<equiv> snd (VictoriaLogsHandler_WithAttrs env h attrs' w)"
  shows "endpoint h2 = endpoint h" and "client h2 = client h" and "logChan h2 = logChan h"
    and "VictoriaLogsHandler.group h2 = VictoriaLogsHandler.group h"
    and "slice_view w2 (VictoriaLogsHandler.attrs h2)
           = slice_view w (VictoriaLogsHandler.attrs h) @ attrs'"
    and "slice_valid w2 (VictoriaLogsHandler.attrs h2)"
    and "same_transport w w2"
    and "\<And>a. a < nextArray w \<Longrightarrow> arrays w2 a = arrays w a"
    and "\<And>t. slice_valid w t \<Longrightarrow> slice_view w2 t = slice_view w t \<and> slice_valid w2 t"
proof -
  let ?s = "VictoriaLogsHandler.attrs h"
  let ?tmp = "fst (slice_append env nil_slice (slice_view w ?s) w)"
  let ?w1 = "snd (slice_append env nil_slice (slice_view w ?s) w)"
  let ?res = "fst (slice_append env ?tmp attrs' ?w1)"
  let ?w2 = "snd (slice_append env ?tmp attrs' ?w1)"
  have h2: "h2 = \<lparr>endpoint = endpoint h, client = client h, VictoriaLogsHandler.attrs = ?res,
                   VictoriaLogsHandler.group = VictoriaLogsHandler.group h, logChan = logChan h\<rparr>"
    and w2: "w2 = ?w2"
    by (simp_all add: h2_def w2_def VictoriaLogsHandler_WithAttrs_def split_def Let_def)
  have tmpv: "slice_view ?w1 ?tmp = slice_view w ?s"
    using slice_append_view [OF nil_slice_valid, where env = env and xs = "slice_view w ?s" and w = w]
    by (simp add: slice_view_empty nil_slice_def)
  have tmpok: "slice_valid ?w1 ?tmp" by (rule slice_append_valid [OF nil_slice_valid])
  show "endpoint h2 = endpoint h" "client h2 = client h" "logChan h2 = logChan h"
    "VictoriaLogsHandler.group h2 = VictoriaLogsHandler.group h"
    by (simp_all add: h2)
  show "slice_view w2 (VictoriaLogsHandler.attrs h2) = slice_view w ?s @ attrs'"
    using slice_append_view [OF tmpok, where env = env and xs = attrs'] tmpv by (simp add: h2 w2)
  show "slice_valid w2 (VictoriaLogsHandler.attrs h2)"
    using slice_append_valid [OF tmpok] by (simp add: h2 w2)
  show "same_transport w w2"
    unfolding w2 by (rule same_transport_trans [OF slice_append_transport slice_append_transport])
  have old: "arrays w2 a = arrays w a" if "a < nextArray w" for a
    unfolding w2 using that by (rule append_to_copy_old_arrays)
  show "\<And>a. a < nextArray w \<Longrightarrow> arrays w2 a = arrays w a" by (rule old)
  have mono: "nextArray w \<le> nextArray w2"
    unfolding w2
    using slice_append_nextArray [of w env nil_slice "slice_view w ?s"]
          slice_append_nextArray [of ?w1 env ?tmp attrs']
    by simp
  show "\<And>t. slice_valid w t \<Longrightarrow> slice_view w2 t = slice_view w t \<and> slice_valid w2 t"
    by (rule old_arrays_keep_slices [OF _ old mono])
qed

lemma VictoriaLogsHandler_WithGroup_facts:
  fixes env :: Env and h :: VictoriaLogsHandler and name :: string and w :: World
  assumes v: "slice_valid w (VictoriaLogsHandler.attrs h)"
  defines "h2 \<equiv> fst (VictoriaLogsHandler_WithGroup env h name w)"
      and "w2 \<equiv> snd (VictoriaLogsHandler_WithGroup env h name w)"
  shows "endpoint h2 = endpoint h" and "client h2 = client h" and "logChan h2 = logChan h"
    and "VictoriaLogsHandler.group h2 =
           (if VictoriaLogsHandler.group h \<noteq> [] then VictoriaLogsHandler.group h @ ''.'' @ name
            else name)"
    and "slice_view w2 (VictoriaLogsHandler.attrs h2) = slice_view w (VictoriaLogsHandler.attrs h)"
    and "slice_valid w2 (VictoriaLogsHandler.attrs h2)"
    and "same_transport w w2"
    and "\<And>a. a < nextArray w \<Longrightarrow> arrays w2 a = arrays w a"
    and "\<And>t. slice_valid w t \<Longrightarrow> slice_view w2 t = slice_view w t \<and> slice_valid w2 t"
proof -
  let ?s = "VictoriaLogsHandler.attrs h"
  let ?res = "fst (slice_append env nil_slice (slice_view w ?s) w)"
  let ?w1 = "snd (slice_append env nil_slice (slice_view w ?s) w)"
  have h2: "h2 = \<lparr>endpoint = endpoint h, client = client h, VictoriaLogsHandler.attrs = ?res,
                   VictoriaLogsHandler.group =
                     (if VictoriaLogsHandler.group h \<noteq> []
                      then VictoriaLogsHandler.group h @ ''.'' @ name else name),
                   logChan = logChan h\<rparr>"
    and w2: "w2 = ?w1"
    by (simp_all add: h2_def w2_def VictoriaLogsHandler_WithGroup_def split_def Let_def)
  show "endpoint h2 = endpoint h" "client h2 = client h" "logChan h2 = logChan h"
    "VictoriaLogsHandler.group h2 =
           (if VictoriaLogsHandler.group h \<noteq> [] then VictoriaLogsHandler.group h @ ''.'' @ name
            else name)"
    by (simp_all add: h2)
  show "slice_view w2 (VictoriaLogsHandler.attrs h2) = slice_view w ?s"
    using slice_append_view [OF nil_slice_valid, where env = env and xs = "slice_view w ?s" and w = w]
    by (simp add: slice_view_empty nil_slice_def h2 w2)
  show "slice_valid w2 (VictoriaLogsHandler.attrs h2)"
    using slice_append_valid [OF nil_slice_valid] by (simp add: h2 w2)
  show "same_transport w w2"
    unfolding w2 by (rule slice_append_transport)
  have old: "arrays w2 a = arrays w a" if "a < nextArray w" for a
    unfolding w2 by (rule slice_append_other_arrays) (simp_all add: nil_slice_def that)
  show "\<And>a. a < nextArray w \<Longrightarrow> arrays w2 a = arrays w a" by (rule old)
  have mono: "nextArray w \<le> nextArray w2"
    unfolding w2 by (rule slice_append_nextArray)
  show "\<And>t. slice_valid w t \<Longrightarrow> slice_view w2 t = slice_view w t \<and> slice_valid w2 t"
    by (rule old_arrays_keep_slices [OF _ old mono])
qed

section \<open>The order of attributes on the console line\<close>

lemma consoleHandler_line_closed:
  "consoleHandler_line env h r w =
     colorGray @ time_Format env (Time r) ''15:04:05.000'' @ colorReset @ '' ''
     @ getLevelColor (Record.Level r) @ getLevelText (Record.Level r)
     @ replicate (4 - length (getLevelText (Record.Level r))) (CHR '' '') @ colorReset @ '' ''
     @ Message r
     @ concat (map (\<lambda>a. appendAttr env '' '' a (consoleHandler.group h)) (Attrs r))
     @ concat (map (\<lambda>a. appendAttr env '' '' a (consoleHandler.group h))
                 (slice_view w (consoleHandler.attrs h)))
     @ (if AddSource (opts h) \<and> PC r \<noteq> 0
        then '' '' @ colorCyan @ shortenFile (File (callersFrame env (PC r))) @ '':''
               @ fmt_d (Line (callersFrame env (PC r))) @ colorReset
        else [])
     @ [CHR 0x0A]"
  by (simp add: consoleHandler_line_def Let_def foldl_appendAttr)

lemma newConsoleHandler_simps:
  "opts (newConsoleHandler wr None) = \<lparr>AddSource = False, HandlerOptions.Level = None, ReplaceAttr = None\<rparr>"
  "out (newConsoleHandler wr x) = wr"
  "consoleHandler.attrs (newConsoleHandler wr x) = nil_slice"
  "consoleHandler.group (newConsoleHandler wr x) = []"
  by (simp_all add: newConsoleHandler_def)

lemma service_console_simps:
  "opts service_console = \<lparr>AddSource = False, HandlerOptions.Level = None, ReplaceAttr = None\<rparr>"
  "out service_console = 2"
  "consoleHandler.group service_console = []"
  "slice_view service_world (consoleHandler.attrs service_console) = [Attr ''service'' (KindString ''api'')]"
  "written service_world = (\<lambda>wr. [])"
  "writeErr service_world = (\<lambda>wr. None)"
proof -
  have v: "slice_valid example_world (consoleHandler.attrs (newConsoleHandler 2 None))"
    by (simp add: newConsoleHandler_simps nil_slice_valid)
  note f = consoleHandler_WithAttrs_facts(1-6)
    [OF v, where env = example_env and attrs' = "[Attr ''service'' (KindString ''api'')]"]
  show "opts service_console = \<lparr>AddSource = False, HandlerOptions.Level = None, ReplaceAttr = None\<rparr>"
    "out service_console = 2" "consoleHandler.group service_console = []"
    using f(1,2,3) by (simp_all add: service_console_def newConsoleHandler_simps)
  show "slice_view service_world (consoleHandler.attrs service_console) = [Attr ''service'' (KindString ''api'')]"
    using f(4) by (simp add: service_console_def service_world_def newConsoleHandler_simps
        slice_view_empty nil_slice_def)
  show "written service_world = (\<lambda>wr. [])" "writeErr service_world = (\<lambda>wr. None)"
    using f(6) by (simp_all add: same_transport_def service_world_def example_simps)
qed

text \<open>
  C8, evaluated on the code. A console sink bound to \<^verbatim>\<open>service="api"\<close> by \<^verbatim>\<open>WithAttrs\<close>
  handles a record with the attribute \<^verbatim>\<open>method="GET"\<close>: the line shows the record's
  attribute first and the bound attribute after it.
\<close>

theorem console_bound_attrs_after_record_attrs:
  \<open>consoleHandler_Handle example_env service_console Background request_record service_world
     = (None, service_world\<lparr>written := (written service_world)(2 :=
          colorGray @ ''00:00:00.000'' @ colorReset @ '' ''
          @ colorGreen @ ''INFO'' @ colorReset @ '' '' @ ''request handled''
          @ '' '' @ colorPurple @ ''method'' @ colorReset @ ''='' @ colorGreen @ ''"GET"'' @ colorReset
          @ '' '' @ colorPurple @ ''service'' @ colorReset @ ''='' @ colorGreen @ ''"api"'' @ colorReset
          @ [CHR 0x0A])\<rparr>)\<close>
  by (simp add: consoleHandler_Handle_def Writer_Write_def consoleHandler_line_closed
        service_console_simps request_record_def example_simps getLevelColor_def getLevelText_def
        Level_defs Attr_isZero_def Let_def)

section \<open>\<^verbatim>\<open>WithAttrs\<close> and \<^verbatim>\<open>WithGroup\<close> build new sinks\<close>

text \<open>
  C9. On the console sink and on the remote sink, \<^verbatim>\<open>WithAttrs\<close> and \<^verbatim>\<open>WithGroup\<close>
  return a new sink: its attributes are the receiver's followed by the new ones (or the
  receiver's, for a group), its group is the receiver's (or extended by the name), and its
  other fields are the receiver's. The receiver's attributes read as before, and the
  channels, workers and writers of the world are untouched. The new remote sink holds the
  receiver's channel, and no worker is started.
\<close>

theorem WithAttrs_WithGroup_pure:
  fixes env :: Env and c :: consoleHandler and v :: VictoriaLogsHandler and w :: World
    and attrs' :: "Attr list" and name :: string
  assumes cv: "slice_valid w (consoleHandler.attrs c)"
      and vv: "slice_valid w (VictoriaLogsHandler.attrs v)"
  defines "ca \<equiv> consoleHandler_WithAttrs env c attrs' w"
      and "cg \<equiv> consoleHandler_WithGroup env c name w"
      and "va \<equiv> VictoriaLogsHandler_WithAttrs env v attrs' w"
      and "vg \<equiv> VictoriaLogsHandler_WithGroup env v name w"
  shows
    "(opts (fst ca) = opts c \<and> out (fst ca) = out c
      \<and> consoleHandler.group (fst ca) = consoleHandler.group c
      \<and> slice_view (snd ca) (consoleHandler.attrs (fst ca))
          = slice_view w (consoleHandler.attrs c) @ attrs'
      \<and> slice_view (snd ca) (consoleHandler.attrs c) = slice_view w (consoleHandler.attrs c)
      \<and> same_transport w (snd ca))
   \<and> (opts (fst cg) = opts c \<and> out (fst cg) = out c
      \<and> consoleHandler.group (fst cg)
          = (if consoleHandler.group c \<noteq> [] then consoleHandler.group c @ ''.'' @ name else name)
      \<and> slice_view (snd cg) (consoleHandler.attrs (fst cg)) = slice_view w (consoleHandler.attrs c)
      \<and> slice_view (snd cg) (consoleHandler.attrs c) = slice_view w (consoleHandler.attrs c)
      \<and> same_transport w (snd cg))
   \<and> (endpoint (fst va) = endpoint v \<and> client (fst va) = client v
      \<and> logChan (fst va) = logChan v
      \<and> VictoriaLogsHandler.group (fst va) = VictoriaLogsHandler.group v
      \<and> slice_view (snd va) (VictoriaLogsHandler.attrs (fst va))
          = slice_view w (VictoriaLogsHandler.attrs v) @ attrs'
      \<and> slice_view (snd va) (VictoriaLogsHandler.attrs v) = slice_view w (VictoriaLogsHandler.attrs v)
      \<and> same_transport w (snd va))
   \<and> (endpoint (fst vg) = endpoint v \<and> client (fst vg) = client v
      \<and> logChan (fst vg) = logChan v
      \<and> VictoriaLogsHandler.group (fst vg)
          = (if VictoriaLogsHandler.group v \<noteq> [] then VictoriaLogsHandler.group v @ ''.'' @ name
             else name)
      \<and> slice_view (snd vg) (VictoriaLogsHandler.attrs (fst vg))
          = slice_view w (VictoriaLogsHandler.attrs v)
      \<and> slice_view (snd vg) (VictoriaLogsHandler.attrs v) = slice_view w (VictoriaLogsHandler.attrs v)
      \<and> same_transport w (snd vg))"
proof -
  note a = consoleHandler_WithAttrs_facts [OF cv]
  note g = consoleHandler_WithGroup_facts [OF cv]
  note b = VictoriaLogsHandler_WithAttrs_facts [OF vv]
  note d = VictoriaLogsHandler_WithGroup_facts [OF vv]
  have p1: "opts (fst ca) = opts c \<and> out (fst ca) = out c
      \<and> consoleHandler.group (fst ca) = consoleHandler.group c
      \<and> slice_view (snd ca) (consoleHandler.attrs (fst ca))
          = slice_view w (consoleHandler.attrs c) @ attrs'
      \<and> slice_view (snd ca) (consoleHandler.attrs c) = slice_view w (consoleHandler.attrs c)
      \<and> same_transport w (snd ca)"
    unfolding ca_def using a(1,2,3,4,6) a(7) [OF cv] by simp
  have p2: "opts (fst cg) = opts c \<and> out (fst cg) = out c
      \<and> consoleHandler.group (fst cg)
          = (if consoleHandler.group c \<noteq> [] then consoleHandler.group c @ ''.'' @ name else name)
      \<and> slice_view (snd cg) (consoleHandler.attrs (fst cg)) = slice_view w (consoleHandler.attrs c)
      \<and> slice_view (snd cg) (consoleHandler.attrs c) = slice_view w (consoleHandler.attrs c)
      \<and> same_transport w (snd cg)"
    unfolding cg_def using g(1,2,3,4,6) g(7) [OF cv] by simp
  have p3: "endpoint (fst va) = endpoint v \<and> client (fst va) = client v
      \<and> logChan (fst va) = logChan v
      \<and> VictoriaLogsHandler.group (fst va) = VictoriaLogsHandler.group v
      \<and> slice_view (snd va) (VictoriaLogsHandler.attrs (fst va))
          = slice_view w (VictoriaLogsHandler.attrs v) @ attrs'
      \<and> slice_view (snd va) (VictoriaLogsHandler.attrs v) = slice_view w (VictoriaLogsHandler.attrs v)
      \<and> same_transport w (snd va)"
    unfolding va_def using b(1,2,3,4,5,7) b(9) [OF vv] by simp
  have p4: "endpoint (fst vg) = endpoint v \<and> client (fst vg) = client v
      \<and> logChan (fst vg) = logChan v
      \<and> VictoriaLogsHandler.group (fst vg)
          = (if VictoriaLogsHandler.group v \<noteq> [] then VictoriaLogsHandler.group v @ ''.'' @ name
             else name)
      \<and> slice_view (snd vg) (VictoriaLogsHandler.attrs (fst vg))
          = slice_view w (VictoriaLogsHandler.attrs v)
      \<and> slice_view (snd vg) (VictoriaLogsHandler.attrs v) = slice_view w (VictoriaLogsHandler.attrs v)
      \<and> same_transport w (snd vg)"
    unfolding vg_def using d(1,2,3,4,5,7) d(9) [OF vv] by simp
  from p1 p2 p3 p4 show ?thesis by blast
qed

theorem WithAttrs_WithGroup_pure_witness:
  "slice_valid example_world (consoleHandler.attrs (newConsoleHandler 2 None))
   \<and> slice_valid example_world (VictoriaLogsHandler.attrs example_remote)
   \<and> slice_view (snd (VictoriaLogsHandler_WithAttrs example_env example_remote
                        [Attr ''service'' (KindString ''api'')] example_world))
         (VictoriaLogsHandler.attrs (fst (VictoriaLogsHandler_WithAttrs example_env example_remote
                        [Attr ''service'' (KindString ''api'')] example_world)))
       = [Attr ''service'' (KindString ''api'')]
   \<and> logChan (fst (VictoriaLogsHandler_WithAttrs example_env example_remote
                        [Attr ''service'' (KindString ''api'')] example_world)) = 0
   \<and> workers (snd (VictoriaLogsHandler_WithAttrs example_env example_remote
                        [Attr ''service'' (KindString ''api'')] example_world)) = [example_remote]
   \<and> VictoriaLogsHandler.group (fst (VictoriaLogsHandler_WithGroup example_env example_remote
                        ''http'' example_world)) = ''http''
   \<and> slice_view (snd (consoleHandler_WithAttrs example_env (newConsoleHandler 2 None)
                        [Attr ''service'' (KindString ''api'')] example_world))
         (consoleHandler.attrs (newConsoleHandler 2 None)) = []"
proof -
  have cv: "slice_valid example_world (consoleHandler.attrs (newConsoleHandler 2 None))"
    by (simp add: newConsoleHandler_simps nil_slice_valid)
  have vv: "slice_valid example_world (VictoriaLogsHandler.attrs example_remote)"
    by (simp add: example_simps nil_slice_valid)
  note inst = WithAttrs_WithGroup_pure
    [OF cv vv, where env = example_env and attrs' = "[Attr ''service'' (KindString ''api'')]"
       and name = "''http''"]
  from inst cv vv show ?thesis
    by (simp add: example_simps newConsoleHandler_simps same_transport_def slice_view_empty
          nil_slice_def)
qed

section \<open>The payload of the remote sink\<close>





section \<open>Duplicate keys\<close>

lemma fmt_d_examples: "fmt_d 1 = ''1''" "fmt_d 2 = ''2''" "fmt_d 12 = ''12''" "fmt_d (- 8) = ''-8''"
  by (simp_all add: fmt_d_def fmt_nat.simps digit_char_def)

text \<open>
  C6, evaluated on the code. A record carries the key \<^verbatim>\<open>attempt\<close> twice, with the values
  1 and 2. The remote sink's document holds 2 under \<^verbatim>\<open>attempt\<close> and the first
  attribute's value under no key at all, while the console sink writes both attributes, in
  order.
\<close>

theorem remote_document_drops_earlier_duplicate:
  "Attrs duplicate_record = [Attr ''attempt'' (KindInt64 1), Attr ''attempt'' (KindInt64 2)]
   \<and> VictoriaLogsHandler_entry example_env example_remote duplicate_record example_world ''attempt''
       = Some (IInt64 2)
   \<and> (\<forall>key. VictoriaLogsHandler_entry example_env example_remote duplicate_record example_world key
          \<noteq> Some (attr_doc_value (Attr ''attempt'' (KindInt64 1))))
   \<and> written (snd (consoleHandler_Handle example_env (newConsoleHandler 2 None) Background
                      duplicate_record example_world)) 2
       = colorGray @ ''00:00:00.000'' @ colorReset @ '' '' @ colorGreen @ ''INFO'' @ colorReset
         @ '' '' @ ''retry''
         @ '' '' @ colorPurple @ ''attempt'' @ colorReset @ ''='' @ colorCyan @ ''1'' @ colorReset
         @ '' '' @ colorPurple @ ''attempt'' @ colorReset @ ''='' @ colorCyan @ ''2'' @ colorReset
         @ [CHR 0x0A]"
proof -
  have remote: "Attrs duplicate_record = [Attr ''attempt'' (KindInt64 1), Attr ''attempt'' (KindInt64 2)]
   \<and> VictoriaLogsHandler_entry example_env example_remote duplicate_record example_world ''attempt''
       = Some (IInt64 2)
   \<and> (\<forall>key. VictoriaLogsHandler_entry example_env example_remote duplicate_record example_world key
          \<noteq> Some (attr_doc_value (Attr ''attempt'' (KindInt64 1))))"
    by (simp add: VictoriaLogsHandler_entry_def VictoriaLogsHandler_fields_def slice_view_def
        nil_slice_def Attr_isZero_def attr_doc_value_def example_simps duplicate_record_def Let_def)
  have console: "written (snd (consoleHandler_Handle example_env (newConsoleHandler 2 None) Background
                      duplicate_record example_world)) 2
       = colorGray @ ''00:00:00.000'' @ colorReset @ '' '' @ colorGreen @ ''INFO'' @ colorReset
         @ '' '' @ ''retry''
         @ '' '' @ colorPurple @ ''attempt'' @ colorReset @ ''='' @ colorCyan @ ''1'' @ colorReset
         @ '' '' @ colorPurple @ ''attempt'' @ colorReset @ ''='' @ colorCyan @ ''2'' @ colorReset
         @ [CHR 0x0A]"
    by (simp add: consoleHandler_Handle_def consoleHandler_line_closed Writer_Write_def
        newConsoleHandler_simps example_simps duplicate_record_def
        getLevelColor_def getLevelText_def Level_defs Attr_isZero_def
        slice_view_empty nil_slice_def fmt_d_examples Let_def)
  from remote console show ?thesis by blast
qed

end
